theory Spec2Isabelle
  imports Main "HOL-Library.Word" "HOL-Library.Multiset"
begin

unbundle bit_operations_syntax

section \<open>API types (api/v1alpha1)\<close>

text \<open>
  Go's \<open>int\<close> on the 64-bit targets the operator is built for: a 64-bit word whose
  arithmetic wraps around and whose order is the signed one (\<open>sint\<close>).
\<close>

type_synonym go_int = "64 word"

text \<open>\<open>DeploymentPhase\<close> is a string type with four constants; \<open>PhaseUnset\<close> is the
  empty string of a status that was never written.\<close>

datatype DeploymentPhase =
  PhaseUnset | PhasePending | PhaseDeploying | PhaseDeployed | PhaseFailed

record RawExtension =
  Raw :: string

text \<open>The package reference of a component. The types file declares \<open>Name\<close>, \<open>Namespace\<close>
  and \<open>Revision\<close>; the controller listed last in docs/DEPLOYMENT.md reads \<open>Repository\<close>,
  \<open>PackageName\<close>, \<open>Revision\<close> and \<open>Namespace\<close> of it, all of them strings.\<close>

record PorchPackageReference =
  ppr_Name :: string
  ppr_Namespace :: string
  ppr_Revision :: string
  ppr_Repository :: string
  ppr_PackageName :: string

record Component =
  c_Name :: string
  c_Order :: go_int
  c_Template :: RawExtension
  c_PorchPackageRef :: "PorchPackageReference option"

record Group =
  g_Name :: string
  g_Order :: go_int
  g_Components :: "Component list"

record PorchIntegrationSpec =
  pi_Enabled :: bool
  pi_Repository :: string

record AppBundleSpec =
  Groups :: "Group list"
  PorchIntegration :: "PorchIntegrationSpec option"

record ResourceReference =
  rr_APIVersion :: string
  rr_Kind :: string
  rr_Name :: string
  rr_Namespace :: string

record ComponentStatus =
  cs_Name :: string
  cs_Phase :: DeploymentPhase
  cs_Message :: string
  cs_ResourceRef :: "ResourceReference option"

record GroupStatus =
  gs_Name :: string
  gs_Phase :: DeploymentPhase
  gs_Message :: string
  gs_ComponentStatuses :: "ComponentStatus list"

datatype ConditionStatus = ConditionTrue | ConditionFalse | ConditionUnknown

record Condition =
  cond_Type :: string
  cond_Status :: ConditionStatus
  cond_Reason :: string
  cond_Message :: string
  cond_ObservedGeneration :: int
  cond_LastTransitionTime :: nat

record AppBundleStatus =
  st_Phase :: DeploymentPhase
  st_Message :: string
  st_GroupStatuses :: "GroupStatus list"
  st_ObservedGeneration :: int
  st_Conditions :: "Condition list"

text \<open>The bundle object: the parts of \<open>ObjectMeta\<close> the controller reads or writes,
  the spec and the status. A nil or zero \<open>DeletionTimestamp\<close> is \<open>None\<close>.\<close>

record AppBundle =
  ab_Name :: string
  ab_Namespace :: string
  ab_UID :: string
  ab_Generation :: int
  ab_ResourceVersion :: string
  ab_Finalizers :: "string list"
  ab_DeletionTimestamp :: "nat option"
  Spec :: AppBundleSpec
  Status :: AppBundleStatus

section \<open>Sync waves\<close>

definition appBundleFinalizer :: string where
  "appBundleFinalizer = ''app.example.com/finalizer''"

definition argoSyncWaveAnnotation :: string where
  "argoSyncWaveAnnotation = ''argocd.argoproj.io/sync-wave''"

text \<open>\<open>baseSyncWave := group.Order * 100\<close> in \<open>reconcileGroup\<close> and
  \<open>syncWave := baseSyncWave + component.Order\<close> in \<open>reconcileComponent\<close>.\<close>

definition baseSyncWave :: "Group \<Rightarrow> go_int" where
  "baseSyncWave grp = g_Order grp * 100"

definition syncWave :: "go_int \<Rightarrow> Component \<Rightarrow> go_int" where
  "syncWave base component = base + c_Order component"

text \<open>\<open>strconv.Itoa\<close>: the decimal rendering of a signed integer.\<close>

definition digit :: "nat \<Rightarrow> char" where
  "digit n = ''0123456789'' ! n"

function natToDec :: "nat \<Rightarrow> string" where
  "natToDec n = (if n < 10 then [digit n] else natToDec (n div 10) @ [digit (n mod 10)])"
  by pat_completeness auto
termination
  by (relation "measure id") auto

declare natToDec.simps [simp del]

definition Itoa :: "go_int \<Rightarrow> string" where
  "Itoa i = (if sint i < 0 then CHR ''-'' # natToDec (nat (- sint i))
             else natToDec (nat (sint i)))"

section \<open>Go's \<open>sort.Slice\<close>\<close>

text \<open>
  \<open>Reconcile\<close> and \<open>reconcileGroup\<close> order their copies with \<open>sort.Slice\<close>, the
  pattern-defeating quicksort of Go's \<open>sort\<close> package (\<open>zsortfunc.go\<close>, Go 1.19 and
  later; the operator is built with Go 1.24). The slice is a list, \<open>data.Less(i, j)\<close> is
  \<open>lt (xs ! i) (xs ! j)\<close> and \<open>data.Swap(i, j)\<close> is \<open>Swap xs i j\<close>; each loop is a
  recursive function over the loop variables.
\<close>

definition Swap :: "'a list \<Rightarrow> nat \<Rightarrow> nat \<Rightarrow> 'a list" where
  "Swap xs i j = xs[i := xs ! j, j := xs ! i]"

function insertionInner :: "('a \<Rightarrow> 'a \<Rightarrow> bool) \<Rightarrow> 'a list \<Rightarrow> nat \<Rightarrow> nat \<Rightarrow> 'a list" where
  "insertionInner lt xs a j =
     (if j > a \<and> lt (xs ! j) (xs ! (j - 1))
      then insertionInner lt (Swap xs j (j - 1)) a (j - 1)
      else xs)"
  by pat_completeness auto
termination
  by (relation "measure (\<lambda>(lt, xs, a, j). j)") auto

declare insertionInner.simps [simp del]

function insertionOuter :: "('a \<Rightarrow> 'a \<Rightarrow> bool) \<Rightarrow> 'a list \<Rightarrow> nat \<Rightarrow> nat \<Rightarrow> nat \<Rightarrow> 'a list" where
  "insertionOuter lt xs a b i =
     (if i < b then insertionOuter lt (insertionInner lt xs a i) a b (i + 1) else xs)"
  by pat_completeness auto
termination
  by (relation "measure (\<lambda>(lt, xs, a, b, i). b - i)") auto

declare insertionOuter.simps [simp del]

definition insertionSort_func :: "('a \<Rightarrow> 'a \<Rightarrow> bool) \<Rightarrow> 'a list \<Rightarrow> nat \<Rightarrow> nat \<Rightarrow> 'a list" where
  "insertionSort_func lt xs a b = insertionOuter lt xs a b (a + 1)"

function siftDown_func :: "('a \<Rightarrow> 'a \<Rightarrow> bool) \<Rightarrow> 'a list \<Rightarrow> nat \<Rightarrow> nat \<Rightarrow> nat \<Rightarrow> 'a list" where
  "siftDown_func lt xs root hi first =
     (let child = 2 * root + 1 in
      if child \<ge> hi then xs
      else
        let child = (if child + 1 < hi \<and> lt (xs ! (first + child)) (xs ! (first + child + 1))
                     then child + 1 else child) in
        if \<not> lt (xs ! (first + root)) (xs ! (first + child)) then xs
        else siftDown_func lt (Swap xs (first + root) (first + child)) child hi first)"
  by pat_completeness auto
termination
  by (relation "measure (\<lambda>(lt, xs, root, hi, first). hi - root)") (auto simp: Let_def)

declare siftDown_func.simps [simp del]

fun heapBuild :: "('a \<Rightarrow> 'a \<Rightarrow> bool) \<Rightarrow> 'a list \<Rightarrow> nat \<Rightarrow> nat \<Rightarrow> nat \<Rightarrow> 'a list" where
  "heapBuild lt xs 0 hi first = siftDown_func lt xs 0 hi first"
| "heapBuild lt xs (Suc i) hi first =
     heapBuild lt (siftDown_func lt xs (Suc i) hi first) i hi first"

fun heapPop :: "('a \<Rightarrow> 'a \<Rightarrow> bool) \<Rightarrow> 'a list \<Rightarrow> nat \<Rightarrow> nat \<Rightarrow> 'a list" where
  "heapPop lt xs 0 first = siftDown_func lt (Swap xs first first) 0 0 first"
| "heapPop lt xs (Suc i) first =
     heapPop lt (siftDown_func lt (Swap xs first (first + Suc i)) 0 (Suc i) first) i first"

definition heapSort_func :: "('a \<Rightarrow> 'a \<Rightarrow> bool) \<Rightarrow> 'a list \<Rightarrow> nat \<Rightarrow> nat \<Rightarrow> 'a list" where
  "heapSort_func lt xs a b =
     (let first = a; hi = b - a;
          xs = heapBuild lt xs ((hi - 1) div 2) hi first
      in heapPop lt xs (hi - 1) first)"

function bitsLen :: "nat \<Rightarrow> nat" where
  "bitsLen n = (if n = 0 then 0 else Suc (bitsLen (n div 2)))"
  by pat_completeness auto
termination
  by (relation "measure id") auto

declare bitsLen.simps [simp del]

definition xorshiftNext :: "64 word \<Rightarrow> 64 word" where
  "xorshiftNext r =
     (let r = r XOR push_bit 13 r;
          r = r XOR drop_bit 7 r;
          r = r XOR push_bit 17 r
      in r)"

definition nextPowerOfTwo :: "nat \<Rightarrow> nat" where
  "nextPowerOfTwo len = 2 ^ bitsLen len"

fun breakLoop :: "'a list \<Rightarrow> nat \<Rightarrow> nat \<Rightarrow> nat \<Rightarrow> nat \<Rightarrow> 64 word \<Rightarrow> nat \<Rightarrow> nat \<Rightarrow> 'a list" where
  "breakLoop xs a len modulus idx random i 0 = xs"
| "breakLoop xs a len modulus idx random i (Suc n) =
     (let random = xorshiftNext random;
          other = unat (random AND word_of_nat (modulus - 1));
          other = (if other \<ge> len then other - len else other)
      in breakLoop (Swap xs (idx - 1 + i) (a + other)) a len modulus idx random (i + 1) n)"

definition breakPatterns_func :: "'a list \<Rightarrow> nat \<Rightarrow> nat \<Rightarrow> 'a list" where
  "breakPatterns_func xs a b =
     (let len = b - a in
      if len \<ge> 8
      then breakLoop xs a len (nextPowerOfTwo len) (a + (len div 4) * 2)
             (word_of_nat len) 0 3
      else xs)"

datatype sortedHint = unknownHint | increasingHint | decreasingHint

definition order2_func :: "('a \<Rightarrow> 'a \<Rightarrow> bool) \<Rightarrow> 'a list \<Rightarrow> nat \<Rightarrow> nat \<Rightarrow> nat \<Rightarrow> (nat \<times> nat) \<times> nat" where
  "order2_func lt xs a b swaps =
     (if lt (xs ! b) (xs ! a) then ((b, a), swaps + 1) else ((a, b), swaps))"

definition median_func :: "('a \<Rightarrow> 'a \<Rightarrow> bool) \<Rightarrow> 'a list \<Rightarrow> nat \<Rightarrow> nat \<Rightarrow> nat \<Rightarrow> nat \<Rightarrow> nat \<times> nat" where
  "median_func lt xs a b c swaps =
     (case order2_func lt xs a b swaps of ((a, b), swaps) \<Rightarrow>
      case order2_func lt xs b c swaps of ((b, c), swaps) \<Rightarrow>
      case order2_func lt xs a b swaps of ((a, b), swaps) \<Rightarrow> (b, swaps))"

definition medianAdjacent_func :: "('a \<Rightarrow> 'a \<Rightarrow> bool) \<Rightarrow> 'a list \<Rightarrow> nat \<Rightarrow> nat \<Rightarrow> nat \<times> nat" where
  "medianAdjacent_func lt xs a swaps = median_func lt xs (a - 1) a (a + 1) swaps"

definition choosePivot_func :: "('a \<Rightarrow> 'a \<Rightarrow> bool) \<Rightarrow> 'a list \<Rightarrow> nat \<Rightarrow> nat \<Rightarrow> nat \<times> sortedHint" where
  "choosePivot_func lt xs a b =
     (let l = b - a;
          i = a + l div 4 * 1;
          j = a + l div 4 * 2;
          k = a + l div 4 * 3;
          (j, swaps) =
            (if l \<ge> 8 then
               (case (if l \<ge> 50 then
                        (case medianAdjacent_func lt xs i 0 of (i, swaps) \<Rightarrow>
                         case medianAdjacent_func lt xs j swaps of (j, swaps) \<Rightarrow>
                         case medianAdjacent_func lt xs k swaps of (k, swaps) \<Rightarrow> (i, j, k, swaps))
                      else (i, j, k, 0)) of
                  (i, j, k, swaps) \<Rightarrow> median_func lt xs i j k swaps)
             else (j, 0))
      in if swaps = 0 then (j, increasingHint)
         else if swaps = 12 then (j, decreasingHint)
         else (j, unknownHint))"

function reverseRange_loop :: "'a list \<Rightarrow> nat \<Rightarrow> nat \<Rightarrow> 'a list" where
  "reverseRange_loop xs i j = (if i < j then reverseRange_loop (Swap xs i j) (i + 1) (j - 1) else xs)"
  by pat_completeness auto
termination
  by (relation "measure (\<lambda>(xs, i, j). j - i)") auto

declare reverseRange_loop.simps [simp del]

definition reverseRange_func :: "'a list \<Rightarrow> nat \<Rightarrow> nat \<Rightarrow> 'a list" where
  "reverseRange_func xs a b = reverseRange_loop xs a (b - 1)"

function scanUp :: "('a \<Rightarrow> bool) \<Rightarrow> 'a list \<Rightarrow> nat \<Rightarrow> nat \<Rightarrow> nat" where
  "scanUp p xs i j = (if i \<le> j \<and> p (xs ! i) then scanUp p xs (i + 1) j else i)"
  by pat_completeness auto
termination
  by (relation "measure (\<lambda>(p, xs, i, j). j + 1 - i)") auto

declare scanUp.simps [simp del]

function scanDown :: "('a \<Rightarrow> bool) \<Rightarrow> 'a list \<Rightarrow> nat \<Rightarrow> nat \<Rightarrow> nat" where
  "scanDown p xs i j = (if i \<le> j \<and> 0 < j \<and> p (xs ! j) then scanDown p xs i (j - 1) else j)"
  by pat_completeness auto
termination
  by (relation "measure (\<lambda>(p, xs, i, j). j)") auto

declare scanDown.simps [simp del]

lemma scanUp_ge: "i \<le> scanUp p xs i j"
  by (induction p xs i j rule: scanUp.induct) (subst scanUp.simps, auto)

lemma scanUp_le: "i \<le> j + 1 \<Longrightarrow> scanUp p xs i j \<le> j + 1"
  by (induction p xs i j rule: scanUp.induct) (subst scanUp.simps, auto)

lemma scanDown_le: "scanDown p xs i j \<le> j"
  by (induction p xs i j rule: scanDown.induct) (subst scanDown.simps, auto)

lemma scanDown_ge: "i \<le> j + 1 \<Longrightarrow> i \<le> scanDown p xs i j + 1"
  by (induction p xs i j rule: scanDown.induct) (subst scanDown.simps, auto)

function partitionLoop :: "('a \<Rightarrow> 'a \<Rightarrow> bool) \<Rightarrow> 'a list \<Rightarrow> nat \<Rightarrow> nat \<Rightarrow> nat \<Rightarrow> 'a list \<times> nat" where
  "partitionLoop lt xs a i j =
     (let i = scanUp (\<lambda>x. lt x (xs ! a)) xs i j;
          j = scanDown (\<lambda>x. \<not> lt x (xs ! a)) xs i j
      in if i > j then (xs, j)
         else partitionLoop lt (Swap xs i j) a (i + 1) (j - 1))"
  by pat_completeness auto
termination partitionLoop
proof (relation "measure (\<lambda>(lt, xs, a, i, j). j + 1 - i)", goal_cases)
  case 1
  show ?case by simp
next
  case (2 lt xs a i j i' j')
  have "i \<le> i'" using 2 scanUp_ge by metis
  moreover have "j' \<le> j" using 2 scanDown_le by metis
  ultimately show ?case using 2 by auto
qed

declare partitionLoop.simps [simp del]

definition partition_func :: "('a \<Rightarrow> 'a \<Rightarrow> bool) \<Rightarrow> 'a list \<Rightarrow> nat \<Rightarrow> nat \<Rightarrow> nat \<Rightarrow> 'a list \<times> nat \<times> bool" where
  "partition_func lt xs a b pivot =
     (let xs = Swap xs a pivot;
          i = a + 1; j = b - 1;
          i = scanUp (\<lambda>x. lt x (xs ! a)) xs i j;
          j = scanDown (\<lambda>x. \<not> lt x (xs ! a)) xs i j
      in if i > j then (Swap xs j a, j, True)
         else (case partitionLoop lt (Swap xs i j) a (i + 1) (j - 1) of
                 (xs, j) \<Rightarrow> (Swap xs j a, j, False)))"

function partitionEqualLoop :: "('a \<Rightarrow> 'a \<Rightarrow> bool) \<Rightarrow> 'a list \<Rightarrow> nat \<Rightarrow> nat \<Rightarrow> nat \<Rightarrow> 'a list \<times> nat" where
  "partitionEqualLoop lt xs a i j =
     (let i = scanUp (\<lambda>x. \<not> lt (xs ! a) x) xs i j;
          j = scanDown (\<lambda>x. lt (xs ! a) x) xs i j
      in if i > j then (xs, i)
         else partitionEqualLoop lt (Swap xs i j) a (i + 1) (j - 1))"
  by pat_completeness auto
termination partitionEqualLoop
proof (relation "measure (\<lambda>(lt, xs, a, i, j). j + 1 - i)", goal_cases)
  case 1
  show ?case by simp
next
  case (2 lt xs a i j i' j')
  have "i \<le> i'" using 2 scanUp_ge by metis
  moreover have "j' \<le> j" using 2 scanDown_le by metis
  ultimately show ?case using 2 by auto
qed

declare partitionEqualLoop.simps [simp del]

definition partitionEqual_func :: "('a \<Rightarrow> 'a \<Rightarrow> bool) \<Rightarrow> 'a list \<Rightarrow> nat \<Rightarrow> nat \<Rightarrow> nat \<Rightarrow> 'a list \<times> nat" where
  "partitionEqual_func lt xs a b pivot =
     partitionEqualLoop lt (Swap xs a pivot) a (a + 1) (b - 1)"

function advance :: "('a \<Rightarrow> 'a \<Rightarrow> bool) \<Rightarrow> 'a list \<Rightarrow> nat \<Rightarrow> nat \<Rightarrow> nat" where
  "advance lt xs i b = (if i < b \<and> \<not> lt (xs ! i) (xs ! (i - 1)) then advance lt xs (i + 1) b else i)"
  by pat_completeness auto
termination
  by (relation "measure (\<lambda>(lt, xs, i, b). b - i)") auto

declare advance.simps [simp del]

function shiftLeft :: "('a \<Rightarrow> 'a \<Rightarrow> bool) \<Rightarrow> 'a list \<Rightarrow> nat \<Rightarrow> 'a list" where
  "shiftLeft lt xs j =
     (if j \<ge> 1 then
        (if \<not> lt (xs ! j) (xs ! (j - 1)) then xs
         else shiftLeft lt (Swap xs j (j - 1)) (j - 1))
      else xs)"
  by pat_completeness auto
termination
  by (relation "measure (\<lambda>(lt, xs, j). j)") auto

declare shiftLeft.simps [simp del]

function shiftRight :: "('a \<Rightarrow> 'a \<Rightarrow> bool) \<Rightarrow> 'a list \<Rightarrow> nat \<Rightarrow> nat \<Rightarrow> 'a list" where
  "shiftRight lt xs j b =
     (if j < b then
        (if \<not> lt (xs ! j) (xs ! (j - 1)) then xs
         else shiftRight lt (Swap xs j (j - 1)) (j + 1) b)
      else xs)"
  by pat_completeness auto
termination
  by (relation "measure (\<lambda>(lt, xs, j, b). b - j)") auto

declare shiftRight.simps [simp del]

fun partialLoop :: "('a \<Rightarrow> 'a \<Rightarrow> bool) \<Rightarrow> 'a list \<Rightarrow> nat \<Rightarrow> nat \<Rightarrow> nat \<Rightarrow> nat \<Rightarrow> 'a list \<times> bool" where
  "partialLoop lt xs a b i 0 = (xs, False)"
| "partialLoop lt xs a b i (Suc n) =
     (let i = advance lt xs i b in
      if i = b then (xs, True)
      else if b - a < 50 then (xs, False)
      else
        let xs = Swap xs i (i - 1);
            xs = (if i - a \<ge> 2 then shiftLeft lt xs (i - 1) else xs);
            xs = (if b - i \<ge> 2 then shiftRight lt xs (i + 1) b else xs)
        in partialLoop lt xs a b i n)"

definition partialInsertionSort_func :: "('a \<Rightarrow> 'a \<Rightarrow> bool) \<Rightarrow> 'a list \<Rightarrow> nat \<Rightarrow> nat \<Rightarrow> 'a list \<times> bool" where
  "partialInsertionSort_func lt xs a b = partialLoop lt xs a b (a + 1) 5"

lemma partitionLoop_snd_le: "snd (partitionLoop lt xs a i j) \<le> j"
proof (induction lt xs a i j rule: partitionLoop.induct)
  case (1 lt xs a i j)
  let ?i = "scanUp (\<lambda>x. lt x (xs ! a)) xs i j"
  let ?j = "scanDown (\<lambda>x. \<not> lt x (xs ! a)) xs ?i j"
  have a: "?j \<le> j" by (rule scanDown_le)
  show ?case
  proof (cases "?i > ?j")
    case True
    then show ?thesis using a by (subst partitionLoop.simps) (simp add: Let_def)
  next
    case False
    then have "snd (partitionLoop lt (Swap xs ?i ?j) a (?i + 1) (?j - 1)) \<le> ?j - 1"
      by (intro "1.IH"[OF refl refl]) auto
    then show ?thesis using a False by (subst partitionLoop.simps) (simp add: Let_def)
  qed
qed

lemma partitionLoop_snd_ge: "i \<le> j + 2 \<Longrightarrow> i \<le> snd (partitionLoop lt xs a i j) + 2"
proof (induction lt xs a i j rule: partitionLoop.induct)
  case (1 lt xs a i j)
  let ?i = "scanUp (\<lambda>x. lt x (xs ! a)) xs i j"
  let ?j = "scanDown (\<lambda>x. \<not> lt x (xs ! a)) xs ?i j"
  show ?case
  proof (cases "i \<le> j")
    case False
    then have i: "?i = i" by (subst scanUp.simps) simp
    have "scanDown (\<lambda>x. \<not> lt x (xs ! a)) xs i j = j"
      using False by (subst scanDown.simps) simp
    with i have "?j = j" by simp
    with i show ?thesis using False "1.prems"
      by (subst partitionLoop.simps) (simp add: Let_def)
  next
    case ij: True
    have b1: "i \<le> ?i" by (rule scanUp_ge)
    have b2: "?i \<le> j + 1" using ij by (intro scanUp_le) simp
    have b3: "?i \<le> ?j + 1" using b2 by (intro scanDown_ge)
    note b = b1 b2 b3
    show ?thesis
    proof (cases "?i > ?j")
      case True
      then show ?thesis using b by (subst partitionLoop.simps) (simp add: Let_def)
    next
      case False
      then have "?i + 1 \<le> snd (partitionLoop lt (Swap xs ?i ?j) a (?i + 1) (?j - 1)) + 2"
        by (intro "1.IH"[OF refl refl]) auto
      then show ?thesis using b False by (subst partitionLoop.simps) (simp add: Let_def)
    qed
  qed
qed

lemma partition_func_mid:
  assumes "a < b" and "partition_func lt xs a b pivot = (ys, mid, ap)"
  shows "a \<le> mid \<and> mid < b"
proof -
  let ?xs = "Swap xs a pivot"
  let ?i = "scanUp (\<lambda>x. lt x (?xs ! a)) ?xs (a + 1) (b - 1)"
  let ?j = "scanDown (\<lambda>x. \<not> lt x (?xs ! a)) ?xs ?i (b - 1)"
  have b1: "a + 1 \<le> ?i" by (rule scanUp_ge)
  have b2: "?i \<le> b" using assms(1) scanUp_le[of "a + 1" "b - 1" "\<lambda>x. lt x (?xs ! a)" ?xs] by simp
  have b3: "?j \<le> b - 1" by (rule scanDown_le)
  have b4: "?i \<le> ?j + 1" using b2 assms(1) by (intro scanDown_ge) simp
  note b = b1 b2 b3 b4
  show ?thesis
  proof (cases "?i > ?j")
    case True
    then have "mid = ?j" using assms(2) by (simp add: partition_func_def Let_def)
    moreover have "?j < b" using b3 assms(1) by linarith
    moreover have "a \<le> ?j" using b1 b4 by linarith
    ultimately show ?thesis by simp
  next
    case False
    let ?r = "partitionLoop lt (Swap ?xs ?i ?j) a (?i + 1) (?j - 1)"
    have "mid = snd ?r" using assms(2) False
      by (auto simp: partition_func_def Let_def split: prod.splits)
    moreover have "snd ?r \<le> ?j - 1" by (rule partitionLoop_snd_le)
    moreover have "?i + 1 \<le> snd ?r + 2" using False b by (intro partitionLoop_snd_ge) auto
    ultimately show ?thesis using b assms(1) False by linarith
  qed
qed

lemma partitionEqualLoop_snd_ge: "i \<le> snd (partitionEqualLoop lt xs a i j)"
proof (induction lt xs a i j rule: partitionEqualLoop.induct)
  case (1 lt xs a i j)
  let ?i = "scanUp (\<lambda>x. \<not> lt (xs ! a) x) xs i j"
  let ?j = "scanDown (\<lambda>x. lt (xs ! a) x) xs ?i j"
  have a: "i \<le> ?i" by (rule scanUp_ge)
  show ?case
  proof (cases "?i > ?j")
    case True
    then show ?thesis using a by (subst partitionEqualLoop.simps) (simp add: Let_def)
  next
    case False
    then have "?i + 1 \<le> snd (partitionEqualLoop lt (Swap xs ?i ?j) a (?i + 1) (?j - 1))"
      by (intro "1.IH"[OF refl refl]) auto
    then show ?thesis using a False by (subst partitionEqualLoop.simps) (simp add: Let_def)
  qed
qed

lemma partitionEqual_func_mid:
  "partitionEqual_func lt xs a b pivot = (ys, mid) \<Longrightarrow> a < mid"
  using partitionEqualLoop_snd_ge[of "a + 1" lt "Swap xs a pivot" a "b - 1"]
  by (simp add: partitionEqual_func_def)

lemma partition_func_mid_sym:
  "(ys, mid, ap) = partition_func lt xs a b pivot \<Longrightarrow> \<not> b - a \<le> 12 \<Longrightarrow> a \<le> mid \<and> mid < b"
  using partition_func_mid[of a b lt xs pivot ys mid ap] by auto

lemma partitionEqual_func_mid_sym:
  "(ys, mid) = partitionEqual_func lt xs a b pivot \<Longrightarrow> a < mid"
  using partitionEqual_func_mid[of lt xs a b pivot ys mid] by auto

function pdqsort_func ::
  "('a \<Rightarrow> 'a \<Rightarrow> bool) \<Rightarrow> 'a list \<Rightarrow> nat \<Rightarrow> nat \<Rightarrow> nat \<Rightarrow> bool \<Rightarrow> bool \<Rightarrow> 'a list" where
  "pdqsort_func lt xs a b limit wasBalanced wasPartitioned =
     (let len = b - a in
      if len \<le> 12 then insertionSort_func lt xs a b
      else if limit = 0 then heapSort_func lt xs a b
      else
        case (if \<not> wasBalanced then (breakPatterns_func xs a b, limit - 1) else (xs, limit)) of
          (xs, limit) \<Rightarrow>
        case choosePivot_func lt xs a b of (pivot, hint) \<Rightarrow>
        case (if hint = decreasingHint
              then (reverseRange_func xs a b, (b - 1) - (pivot - a), increasingHint)
              else (xs, pivot, hint)) of
          (xs, pivot, hint) \<Rightarrow>
        case (if wasBalanced \<and> wasPartitioned \<and> hint = increasingHint
              then partialInsertionSort_func lt xs a b else (xs, False)) of
          (xs, isSorted) \<Rightarrow>
        if isSorted then xs
        else if a > 0 \<and> \<not> lt (xs ! (a - 1)) (xs ! pivot) then
          (case partitionEqual_func lt xs a b pivot of
             (xs, mid) \<Rightarrow> pdqsort_func lt xs mid b limit wasBalanced wasPartitioned)
        else
          (case partition_func lt xs a b pivot of
             (xs, mid, alreadyPartitioned) \<Rightarrow>
               let leftLen = mid - a; rightLen = b - mid; balanceThreshold = len div 8 in
               if leftLen < rightLen
               then pdqsort_func lt (pdqsort_func lt xs a mid limit True True) (mid + 1) b limit
                      (leftLen \<ge> balanceThreshold) alreadyPartitioned
               else pdqsort_func lt (pdqsort_func lt xs (mid + 1) b limit True True) a mid limit
                      (rightLen \<ge> balanceThreshold) alreadyPartitioned))"
  by pat_completeness auto
termination pdqsort_func
  apply (relation "measure (\<lambda>(lt, xs, a, b, limit, wb, wp). b - a)")
  apply simp
      apply (auto dest!: partitionEqual_func_mid_sym partition_func_mid_sym)
  done

declare pdqsort_func.simps [simp del]

definition Slice :: "('a \<Rightarrow> 'a \<Rightarrow> bool) \<Rightarrow> 'a list \<Rightarrow> 'a list" where
  "Slice lt x = pdqsort_func lt x 0 (length x) (bitsLen (length x)) True True"

section \<open>Cluster objects and the client\<close>

text \<open>Go error values: \<open>errors.IsNotFound(err)\<close> and \<open>err.Error()\<close>.\<close>

datatype error = Error (IsNotFound: bool) (ErrorMsg: string)

record OwnerReference =
  or_APIVersion :: string
  or_Kind :: string
  or_Name :: string
  or_UID :: string
  or_Controller :: bool
  or_BlockOwnerDeletion :: bool

text \<open>The values of a decoded JSON document (\<open>map[string]interface{}\<close> and what it
  holds): nil, bool, int64, float64 (carried as the text \<open>%v\<close> prints for it), string,
  \<open>[]interface{}\<close> and \<open>map[string]interface{}\<close>, a map being the list of its entries.\<close>

datatype json =
    JNull | JBool bool | JInt "64 word" | JFloat string | JString string
  | JArray "json list" | JObject "(string \<times> json) list"

text \<open>\<open>unstructured.Unstructured\<close>: the fields the controller reads or writes through the
  typed accessors; the other top-level fields of the manifest (\<open>spec\<close>, \<open>status\<close>, ...)
  are the entries of \<open>u_body\<close>. A missing annotation or label map is the empty map.\<close>

record unstructured =
  u_apiVersion :: string
  u_kind :: string
  u_name :: string
  u_namespace :: string
  u_annotations :: "string \<rightharpoonup> string"
  u_labels :: "string \<rightharpoonup> string"
  u_ownerReferences :: "OwnerReference list"
  u_resourceVersion :: string
  u_body :: "(string \<times> json) list"

type_synonym GroupVersionKind = "string \<times> string \<times> string"

text \<open>\<open>schema.ParseGroupVersion\<close>, \<open>GroupVersion.String\<close> and the accessors
  \<open>GroupVersionKind\<close> and \<open>SetGroupVersionKind\<close> of an unstructured object.\<close>

definition ParseGroupVersion :: "string \<Rightarrow> error + (string \<times> string)" where
  "ParseGroupVersion gv =
     (if gv = [] \<or> gv = ''/'' then Inr ([], [])
      else if count_list gv (CHR ''/'') = 0 then Inr ([], gv)
      else if count_list gv (CHR ''/'') = 1
        then Inr (takeWhile (\<lambda>c. c \<noteq> CHR ''/'') gv, tl (dropWhile (\<lambda>c. c \<noteq> CHR ''/'') gv))
      else Inl (Error False (''unexpected GroupVersion string: '' @ gv)))"

definition GroupVersionString :: "string \<times> string \<Rightarrow> string" where
  "GroupVersionString gv = (if fst gv \<noteq> [] then fst gv @ ''/'' @ snd gv else snd gv)"

definition GroupVersionKind :: "unstructured \<Rightarrow> GroupVersionKind" where
  "GroupVersionKind u =
     (case ParseGroupVersion (u_apiVersion u) of
        Inl err \<Rightarrow> ([], [], u_kind u)
      | Inr (g, v) \<Rightarrow> (g, v, u_kind u))"

text \<open>Every call the reconciler issues on its client, with the object it hands over.\<close>

datatype call =
    CallGetBundle "string \<times> string"
  | CallUpdateBundle AppBundle
  | CallStatusUpdate AppBundle
  | CallGet GroupVersionKind "string \<times> string"
  | CallCreate unstructured
  | CallUpdate unstructured
  | CallDelete unstructured
  | CallList GroupVersionKind string

text \<open>
  \<open>client.Client\<close> over a cluster state \<open>'s\<close>: each operation answers with an error or
  with the object as the server returns it (the Go client writes the response into the
  object it was given), and leaves a new cluster state. A namespaced name is the pair
  (namespace, name). \<open>List\<close> takes the kind of the list and the namespace of the
  \<open>InNamespace\<close> option and answers with the items.
\<close>

record 's client =
  cl_GetBundle :: "'s \<Rightarrow> string \<times> string \<Rightarrow> (error + AppBundle) \<times> 's"
  cl_UpdateBundle :: "'s \<Rightarrow> AppBundle \<Rightarrow> (error + AppBundle) \<times> 's"
  cl_StatusUpdate :: "'s \<Rightarrow> AppBundle \<Rightarrow> (error + AppBundle) \<times> 's"
  cl_Get :: "'s \<Rightarrow> GroupVersionKind \<Rightarrow> string \<times> string \<Rightarrow> (error + unstructured) \<times> 's"
  cl_Create :: "'s \<Rightarrow> unstructured \<Rightarrow> (error + unstructured) \<times> 's"
  cl_Update :: "'s \<Rightarrow> unstructured \<Rightarrow> (error + unstructured) \<times> 's"
  cl_Delete :: "'s \<Rightarrow> unstructured \<Rightarrow> error option \<times> 's"
  cl_List :: "'s \<Rightarrow> GroupVersionKind \<Rightarrow> string \<Rightarrow> (error + unstructured list) \<times> 's"

text \<open>The reconciler: its client and, of its scheme, the kind registered for the
  \<open>AppBundle\<close> type (if any).\<close>

record 's AppBundleReconciler =
  Client :: "'s client"
  Scheme :: "GroupVersionKind option"

text \<open>The state a pass threads through: the calls issued so far and the cluster.\<close>

type_synonym 's world = "call list \<times> 's"

definition r_GetBundle ::
  "'s AppBundleReconciler \<Rightarrow> string \<times> string \<Rightarrow> 's world \<Rightarrow> (error + AppBundle) \<times> 's world" where
  "r_GetBundle r nn w =
     (case cl_GetBundle (Client r) (snd w) nn of
        (res, s) \<Rightarrow> (res, (fst w @ [CallGetBundle nn], s)))"

definition r_UpdateBundle ::
  "'s AppBundleReconciler \<Rightarrow> AppBundle \<Rightarrow> 's world \<Rightarrow> (error + AppBundle) \<times> 's world" where
  "r_UpdateBundle r b w =
     (case cl_UpdateBundle (Client r) (snd w) b of
        (res, s) \<Rightarrow> (res, (fst w @ [CallUpdateBundle b], s)))"

definition r_StatusUpdate ::
  "'s AppBundleReconciler \<Rightarrow> AppBundle \<Rightarrow> 's world \<Rightarrow> (error + AppBundle) \<times> 's world" where
  "r_StatusUpdate r b w =
     (case cl_StatusUpdate (Client r) (snd w) b of
        (res, s) \<Rightarrow> (res, (fst w @ [CallStatusUpdate b], s)))"

definition r_Get ::
  "'s AppBundleReconciler \<Rightarrow> GroupVersionKind \<Rightarrow> string \<times> string \<Rightarrow> 's world
    \<Rightarrow> (error + unstructured) \<times> 's world" where
  "r_Get r gvk nn w =
     (case cl_Get (Client r) (snd w) gvk nn of
        (res, s) \<Rightarrow> (res, (fst w @ [CallGet gvk nn], s)))"

definition r_Create ::
  "'s AppBundleReconciler \<Rightarrow> unstructured \<Rightarrow> 's world \<Rightarrow> (error + unstructured) \<times> 's world" where
  "r_Create r obj w =
     (case cl_Create (Client r) (snd w) obj of
        (res, s) \<Rightarrow> (res, (fst w @ [CallCreate obj], s)))"

definition r_Update ::
  "'s AppBundleReconciler \<Rightarrow> unstructured \<Rightarrow> 's world \<Rightarrow> (error + unstructured) \<times> 's world" where
  "r_Update r obj w =
     (case cl_Update (Client r) (snd w) obj of
        (res, s) \<Rightarrow> (res, (fst w @ [CallUpdate obj], s)))"

definition r_Delete ::
  "'s AppBundleReconciler \<Rightarrow> unstructured \<Rightarrow> 's world \<Rightarrow> error option \<times> 's world" where
  "r_Delete r obj w =
     (case cl_Delete (Client r) (snd w) obj of
        (res, s) \<Rightarrow> (res, (fst w @ [CallDelete obj], s)))"

definition r_List ::
  "'s AppBundleReconciler \<Rightarrow> GroupVersionKind \<Rightarrow> string \<Rightarrow> 's world
    \<Rightarrow> (error + unstructured list) \<times> 's world" where
  "r_List r gvk ns w =
     (case cl_List (Client r) (snd w) gvk ns of
        (res, s) \<Rightarrow> (res, (fst w @ [CallList gvk ns], s)))"

section \<open>Library helpers: finalizers, owner references, conditions\<close>

text \<open>\<open>controllerutil.ContainsFinalizer\<close>, \<open>AddFinalizer\<close> and \<open>RemoveFinalizer\<close>.\<close>

definition ContainsFinalizer :: "AppBundle \<Rightarrow> string \<Rightarrow> bool" where
  "ContainsFinalizer b finalizer = (finalizer \<in> set (ab_Finalizers b))"

definition AddFinalizer :: "AppBundle \<Rightarrow> string \<Rightarrow> AppBundle" where
  "AddFinalizer b finalizer =
     (if finalizer \<in> set (ab_Finalizers b) then b
      else b\<lparr>ab_Finalizers := ab_Finalizers b @ [finalizer]\<rparr>)"

definition RemoveFinalizer :: "AppBundle \<Rightarrow> string \<Rightarrow> AppBundle" where
  "RemoveFinalizer b finalizer =
     b\<lparr>ab_Finalizers := filter (\<lambda>f. f \<noteq> finalizer) (ab_Finalizers b)\<rparr>"

text \<open>
  \<open>controllerutil.SetControllerReference\<close>: \<open>validateOwner\<close> refuses a namespaced owner
  for a cluster-scoped object or for an object of another namespace; the owner's kind
  comes from the scheme; an object some other controller owns is refused; otherwise the
  reference is inserted or replaced.
\<close>

definition validateOwner :: "AppBundle \<Rightarrow> unstructured \<Rightarrow> error option" where
  "validateOwner owner object =
     (let ownerNs = ab_Namespace owner in
      if ownerNs \<noteq> [] then
        (let objNs = u_namespace object in
         if objNs = [] then
           Some (Error False
             (''cluster-scoped resource must not have a namespace-scoped owner, owner's namespace ''
               @ ownerNs))
         else if ownerNs \<noteq> objNs then
           Some (Error False
             (''cross-namespace owner references are disallowed, owner's namespace '' @ ownerNs
               @ '', obj's namespace '' @ objNs))
         else None)
      else None)"

definition referSameObject :: "OwnerReference \<Rightarrow> OwnerReference \<Rightarrow> bool" where
  "referSameObject a b =
     (case ParseGroupVersion (or_APIVersion a) of
        Inl err \<Rightarrow> False
      | Inr aGV \<Rightarrow>
          (case ParseGroupVersion (or_APIVersion b) of
             Inl err \<Rightarrow> False
           | Inr bGV \<Rightarrow> fst aGV = fst bGV \<and> or_Kind a = or_Kind b \<and> or_Name a = or_Name b))"

definition GetControllerOf :: "unstructured \<Rightarrow> OwnerReference option" where
  "GetControllerOf controlled = find or_Controller (u_ownerReferences controlled)"

fun upsertOwnerRefs :: "OwnerReference \<Rightarrow> OwnerReference list \<Rightarrow> OwnerReference list" where
  "upsertOwnerRefs ref [] = [ref]"
| "upsertOwnerRefs ref (r # owners) =
     (if referSameObject r ref then ref # owners else r # upsertOwnerRefs ref owners)"

definition SetControllerReference ::
  "AppBundle \<Rightarrow> unstructured \<Rightarrow> GroupVersionKind option \<Rightarrow> error + unstructured" where
  "SetControllerReference owner controlled scheme =
     (case validateOwner owner controlled of
        Some err \<Rightarrow> Inl err
      | None \<Rightarrow>
          (case scheme of
             None \<Rightarrow> Inl (Error False
               (''no kind is registered for the type v1alpha1.AppBundle in scheme ''
                 @ [CHR 0x22] @ ''pkg/runtime/scheme.go:110'' @ [CHR 0x22]))
           | Some (g, v, k) \<Rightarrow>
               (let ref = \<lparr>or_APIVersion = GroupVersionString (g, v), or_Kind = k,
                           or_Name = ab_Name owner, or_UID = ab_UID owner,
                           or_Controller = True, or_BlockOwnerDeletion = True\<rparr> in
                case GetControllerOf controlled of
                  Some existing \<Rightarrow>
                    if \<not> referSameObject existing ref
                    then Inl (Error False
                           (''Object '' @ u_namespace controlled @ ''/'' @ u_name controlled
                             @ '' is already owned by another '' @ or_Kind existing
                             @ '' controller '' @ or_Name existing))
                    else Inr (controlled\<lparr>u_ownerReferences :=
                                 upsertOwnerRefs ref (u_ownerReferences controlled)\<rparr>)
                | None \<Rightarrow>
                    Inr (controlled\<lparr>u_ownerReferences :=
                           upsertOwnerRefs ref (u_ownerReferences controlled)\<rparr>))))"

text \<open>\<open>meta.SetStatusCondition\<close>; \<open>now\<close> is the clock reading it stamps on a new
  condition or on a change of status.\<close>

fun SetStatusCondition :: "nat \<Rightarrow> Condition list \<Rightarrow> Condition \<Rightarrow> Condition list" where
  "SetStatusCondition now [] newCondition =
     [newCondition\<lparr>cond_LastTransitionTime := now\<rparr>]"
| "SetStatusCondition now (c # conditions) newCondition =
     (if cond_Type c = cond_Type newCondition then
        (if cond_Status c \<noteq> cond_Status newCondition
         then c\<lparr>cond_Status := cond_Status newCondition, cond_LastTransitionTime := now\<rparr>
         else c)
          \<lparr>cond_Reason := cond_Reason newCondition,
           cond_Message := cond_Message newCondition,
           cond_ObservedGeneration := cond_ObservedGeneration newCondition\<rparr> # conditions
      else c # SetStatusCondition now conditions newCondition)"

section \<open>The controller (internal/controller/appbundle_controller.go)\<close>

text \<open>
  \<open>reconcileComponent\<close>. \<open>unmarshal\<close> is \<open>json.Unmarshal\<close> into an unstructured object;
  \<open>fmt.Sprintf("...: %v", err)\<close> appends the error's message.
\<close>

definition reconcileComponent ::
  "(string \<Rightarrow> error + unstructured) \<Rightarrow> 's AppBundleReconciler \<Rightarrow> AppBundle \<Rightarrow> Group \<Rightarrow> Component
    \<Rightarrow> go_int \<Rightarrow> 's world \<Rightarrow> (ComponentStatus \<times> error option) \<times> 's world" where
  "reconcileComponent unmarshal r appBundle grp component base w =
     (let componentStatus = \<lparr>cs_Name = c_Name component, cs_Phase = PhaseDeploying,
                              cs_Message = [], cs_ResourceRef = None\<rparr> in
      case unmarshal (Raw (c_Template component)) of
        Inl err \<Rightarrow>
          ((componentStatus\<lparr>cs_Phase := PhaseFailed,
              cs_Message := ''Failed to parse template: '' @ ErrorMsg err\<rparr>, Some err), w)
      | Inr obj \<Rightarrow>
          (let wave = syncWave base component;
               obj = obj\<lparr>u_annotations := (u_annotations obj)(argoSyncWaveAnnotation \<mapsto> Itoa wave)\<rparr>;
               obj = obj\<lparr>u_labels := (u_labels obj)
                        (''app.example.com/appbundle'' \<mapsto> ab_Name appBundle,
                         ''app.example.com/group'' \<mapsto> g_Name grp,
                         ''app.example.com/component'' \<mapsto> c_Name component)\<rparr>;
               obj = (if u_namespace obj = [] \<and> ab_Namespace appBundle \<noteq> []
                      then obj\<lparr>u_namespace := ab_Namespace appBundle\<rparr> else obj)
           in
           case SetControllerReference appBundle obj (Scheme r) of
             Inl err \<Rightarrow>
               ((componentStatus\<lparr>cs_Phase := PhaseFailed,
                   cs_Message := ''Failed to set owner reference: '' @ ErrorMsg err\<rparr>, Some err), w)
           | Inr obj \<Rightarrow>
               (case r_Get r (GroupVersionKind obj) (u_namespace obj, u_name obj) w of
                  (Inl err, w) \<Rightarrow>
                    if IsNotFound err then
                      (case r_Create r obj w of
                         (Inl err, w) \<Rightarrow>
                           ((componentStatus\<lparr>cs_Phase := PhaseFailed,
                               cs_Message := ''Failed to create resource: '' @ ErrorMsg err\<rparr>,
                             Some err), w)
                       | (Inr obj, w) \<Rightarrow>
                           ((componentStatus\<lparr>cs_Phase := PhaseDeployed,
                               cs_Message := ''Resource deployed successfully'',
                               cs_ResourceRef := Some \<lparr>rr_APIVersion = u_apiVersion obj,
                                 rr_Kind = u_kind obj, rr_Name = u_name obj,
                                 rr_Namespace = u_namespace obj\<rparr>\<rparr>, None), w))
                    else
                      ((componentStatus\<lparr>cs_Phase := PhaseFailed,
                          cs_Message := ''Failed to get existing resource: '' @ ErrorMsg err\<rparr>,
                        Some err), w)
                | (Inr existingObj, w) \<Rightarrow>
                    (case r_Update r (obj\<lparr>u_resourceVersion := u_resourceVersion existingObj\<rparr>) w of
                       (Inl err, w) \<Rightarrow>
                         ((componentStatus\<lparr>cs_Phase := PhaseFailed,
                             cs_Message := ''Failed to update resource: '' @ ErrorMsg err\<rparr>,
                           Some err), w)
                     | (Inr obj, w) \<Rightarrow>
                         ((componentStatus\<lparr>cs_Phase := PhaseDeployed,
                             cs_Message := ''Resource deployed successfully'',
                             cs_ResourceRef := Some \<lparr>rr_APIVersion = u_apiVersion obj,
                               rr_Kind = u_kind obj, rr_Name = u_name obj,
                               rr_Namespace = u_namespace obj\<rparr>\<rparr>, None), w)))))"

text \<open>The loop of \<open>reconcileGroup\<close> over the sorted components, and \<open>reconcileGroup\<close>.\<close>

fun reconcileComponents ::
  "(string \<Rightarrow> error + unstructured) \<Rightarrow> 's AppBundleReconciler \<Rightarrow> AppBundle \<Rightarrow> Group \<Rightarrow> go_int
    \<Rightarrow> Component list \<Rightarrow> GroupStatus \<Rightarrow> 's world \<Rightarrow> (GroupStatus \<times> error option) \<times> 's world" where
  "reconcileComponents unmarshal r appBundle grp base [] groupStatus w = ((groupStatus, None), w)"
| "reconcileComponents unmarshal r appBundle grp base (component # rest) groupStatus w =
     (case reconcileComponent unmarshal r appBundle grp component base w of
        ((componentStatus, Some err), w) \<Rightarrow>
          ((groupStatus\<lparr>gs_Phase := PhaseFailed,
              gs_Message := ''Failed to deploy component '' @ c_Name component @ '': '' @ ErrorMsg err,
              gs_ComponentStatuses := gs_ComponentStatuses groupStatus @ [componentStatus]\<rparr>,
            Some err), w)
      | ((componentStatus, None), w) \<Rightarrow>
          reconcileComponents unmarshal r appBundle grp base rest
            (groupStatus\<lparr>gs_ComponentStatuses :=
               gs_ComponentStatuses groupStatus @ [componentStatus]\<rparr>) w)"

definition componentLess :: "Component \<Rightarrow> Component \<Rightarrow> bool" where
  "componentLess x y = (sint (c_Order x) < sint (c_Order y))"

definition groupLess :: "Group \<Rightarrow> Group \<Rightarrow> bool" where
  "groupLess x y = (sint (g_Order x) < sint (g_Order y))"

definition reconcileGroup ::
  "(string \<Rightarrow> error + unstructured) \<Rightarrow> 's AppBundleReconciler \<Rightarrow> AppBundle \<Rightarrow> Group \<Rightarrow> 's world
    \<Rightarrow> (GroupStatus \<times> error option) \<times> 's world" where
  "reconcileGroup unmarshal r appBundle grp w =
     (let groupStatus = \<lparr>gs_Name = g_Name grp, gs_Phase = PhaseDeploying, gs_Message = [],
                          gs_ComponentStatuses = []\<rparr>;
          sortedComponents = Slice componentLess (g_Components grp);
          base = baseSyncWave grp
      in case reconcileComponents unmarshal r appBundle grp base sortedComponents groupStatus w of
           ((groupStatus, Some err), w) \<Rightarrow> ((groupStatus, Some err), w)
         | ((groupStatus, None), w) \<Rightarrow>
             ((groupStatus\<lparr>gs_Phase := PhaseDeployed,
                 gs_Message := ''All components deployed successfully''\<rparr>, None), w))"

text \<open>\<open>reconcilePorchPackages\<close> and \<open>finalizeAppBundle\<close> log and return nil.\<close>

definition reconcilePorchPackages ::
  "'s AppBundleReconciler \<Rightarrow> AppBundle \<Rightarrow> 's world \<Rightarrow> error option \<times> 's world" where
  "reconcilePorchPackages r appBundle w = (None, w)"

definition finalizeAppBundle ::
  "'s AppBundleReconciler \<Rightarrow> AppBundle \<Rightarrow> 's world \<Rightarrow> error option \<times> 's world" where
  "finalizeAppBundle r appBundle w = (None, w)"

definition updateStatusWithError ::
  "'s AppBundleReconciler \<Rightarrow> nat \<Rightarrow> AppBundle \<Rightarrow> error \<Rightarrow> 's world \<Rightarrow> error option \<times> 's world" where
  "updateStatusWithError r now appBundle err w =
     (let appBundle = appBundle\<lparr>Status := (Status appBundle)
            \<lparr>st_Phase := PhaseFailed,
             st_Message := ErrorMsg err,
             st_Conditions := SetStatusCondition now (st_Conditions (Status appBundle))
               \<lparr>cond_Type = ''Ready'', cond_Status = ConditionFalse,
                cond_Reason = ''DeploymentFailed'', cond_Message = ErrorMsg err,
                cond_ObservedGeneration = ab_Generation appBundle,
                cond_LastTransitionTime = 0\<rparr>\<rparr>\<rparr>
      in case r_StatusUpdate r appBundle w of
           (Inl statusErr, w) \<Rightarrow> (Some statusErr, w)
         | (Inr appBundle, w) \<Rightarrow> (Some err, w))"

text \<open>The loop of \<open>Reconcile\<close> over the sorted groups: the bundle's group statuses grow
  by one entry per group, and the first error ends the loop.\<close>

fun reconcileGroups ::
  "(string \<Rightarrow> error + unstructured) \<Rightarrow> 's AppBundleReconciler \<Rightarrow> AppBundle \<Rightarrow> Group list
    \<Rightarrow> 's world \<Rightarrow> (AppBundle \<times> error option) \<times> 's world" where
  "reconcileGroups unmarshal r appBundle [] w = ((appBundle, None), w)"
| "reconcileGroups unmarshal r appBundle (grp # rest) w =
     (case reconcileGroup unmarshal r appBundle grp w of
        ((groupStatus, Some err), w) \<Rightarrow>
          ((appBundle\<lparr>Status := (Status appBundle)
              \<lparr>st_GroupStatuses := st_GroupStatuses (Status appBundle) @ [groupStatus]\<rparr>\<rparr>,
            Some err), w)
      | ((groupStatus, None), w) \<Rightarrow>
          reconcileGroups unmarshal r
            (appBundle\<lparr>Status := (Status appBundle)
              \<lparr>st_GroupStatuses := st_GroupStatuses (Status appBundle) @ [groupStatus]\<rparr>\<rparr>)
            rest w)"

text \<open>\<open>Reconcile\<close> from "Sort groups by order" to its end.\<close>

definition deployGroups ::
  "(string \<Rightarrow> error + unstructured) \<Rightarrow> 's AppBundleReconciler \<Rightarrow> nat \<Rightarrow> AppBundle \<Rightarrow> 's world
    \<Rightarrow> error option \<times> 's world" where
  "deployGroups unmarshal r now appBundle w =
     (let sortedGroups = Slice groupLess (Groups (Spec appBundle));
          appBundle = appBundle\<lparr>Status := (Status appBundle)
            \<lparr>st_Phase := PhaseDeploying, st_GroupStatuses := []\<rparr>\<rparr>
      in case reconcileGroups unmarshal r appBundle sortedGroups w of
           ((appBundle, Some err), w) \<Rightarrow> updateStatusWithError r now appBundle err w
         | ((appBundle, None), w) \<Rightarrow>
             (let appBundle = appBundle\<lparr>Status := (Status appBundle)
                    \<lparr>st_Phase := PhaseDeployed,
                     st_Message := ''All groups deployed successfully'',
                     st_ObservedGeneration := ab_Generation appBundle,
                     st_Conditions := SetStatusCondition now (st_Conditions (Status appBundle))
                       \<lparr>cond_Type = ''Ready'', cond_Status = ConditionTrue,
                        cond_Reason = ''DeploymentComplete'',
                        cond_Message = ''All resources deployed successfully'',
                        cond_ObservedGeneration = ab_Generation appBundle,
                        cond_LastTransitionTime = 0\<rparr>\<rparr>\<rparr>
              in case r_StatusUpdate r appBundle w of
                   (Inl err, w) \<Rightarrow> (Some err, w)
                 | (Inr appBundle, w) \<Rightarrow> (None, w)))"

text \<open>\<open>Reconcile\<close> for a bundle that is not being deleted, from "Initialize status if
  needed" on.\<close>

definition reconcileLive ::
  "(string \<Rightarrow> error + unstructured) \<Rightarrow> 's AppBundleReconciler \<Rightarrow> nat \<Rightarrow> AppBundle \<Rightarrow> 's world
    \<Rightarrow> error option \<times> 's world" where
  "reconcileLive unmarshal r now appBundle w =
     (case (if st_Phase (Status appBundle) = PhaseUnset
            then r_StatusUpdate r
                   (appBundle\<lparr>Status := (Status appBundle)\<lparr>st_Phase := PhasePending\<rparr>\<rparr>) w
            else (Inr appBundle, w)) of
        (Inl err, w) \<Rightarrow> (Some err, w)
      | (Inr appBundle, w) \<Rightarrow>
          (case (if (case PorchIntegration (Spec appBundle) of
                       None \<Rightarrow> False | Some p \<Rightarrow> pi_Enabled p)
                 then reconcilePorchPackages r appBundle w else (None, w)) of
             (Some err, w) \<Rightarrow> updateStatusWithError r now appBundle err w
           | (None, w) \<Rightarrow> deployGroups unmarshal r now appBundle w))"

text \<open>\<open>Reconcile\<close> for a bundle whose deletion timestamp is set.\<close>

definition reconcileDeletion ::
  "'s AppBundleReconciler \<Rightarrow> AppBundle \<Rightarrow> 's world \<Rightarrow> error option \<times> 's world" where
  "reconcileDeletion r appBundle w =
     (if ContainsFinalizer appBundle appBundleFinalizer then
        (case finalizeAppBundle r appBundle w of
           (Some err, w) \<Rightarrow> (Some err, w)
         | (None, w) \<Rightarrow>
             (case r_UpdateBundle r (RemoveFinalizer appBundle appBundleFinalizer) w of
                (Inl err, w) \<Rightarrow> (Some err, w)
              | (Inr appBundle, w) \<Rightarrow> (None, w)))
      else (None, w))"

definition Reconcile ::
  "(string \<Rightarrow> error + unstructured) \<Rightarrow> 's AppBundleReconciler \<Rightarrow> nat \<Rightarrow> string \<times> string
    \<Rightarrow> 's world \<Rightarrow> error option \<times> 's world" where
  "Reconcile unmarshal r now req w =
     (case r_GetBundle r req w of
        (Inl err, w) \<Rightarrow> if IsNotFound err then (None, w) else (Some err, w)
      | (Inr appBundle, w) \<Rightarrow>
          (case (if \<not> ContainsFinalizer appBundle appBundleFinalizer
                 then r_UpdateBundle r (AddFinalizer appBundle appBundleFinalizer) w
                 else (Inr appBundle, w)) of
             (Inl err, w) \<Rightarrow> (Some err, w)
           | (Inr appBundle, w) \<Rightarrow>
               if ab_DeletionTimestamp appBundle \<noteq> None
               then reconcileDeletion r appBundle w
               else reconcileLive unmarshal r now appBundle w))"

text \<open>The outcomes of \<open>reconcileComponent\<close>: the manifest as it is decorated before the
  owner reference is set, and the two shapes of the status it returns.\<close>

definition decorate :: "AppBundle \<Rightarrow> Group \<Rightarrow> Component \<Rightarrow> go_int \<Rightarrow> unstructured \<Rightarrow> unstructured" where
  "decorate appBundle grp c base obj =
     (let obj = obj\<lparr>u_annotations :=
                      (u_annotations obj)(argoSyncWaveAnnotation \<mapsto> Itoa (syncWave base c))\<rparr>;
          obj = obj\<lparr>u_labels := (u_labels obj)
                   (''app.example.com/appbundle'' \<mapsto> ab_Name appBundle,
                    ''app.example.com/group'' \<mapsto> g_Name grp,
                    ''app.example.com/component'' \<mapsto> c_Name c)\<rparr>
      in if u_namespace obj = [] \<and> ab_Namespace appBundle \<noteq> []
         then obj\<lparr>u_namespace := ab_Namespace appBundle\<rparr> else obj)"

definition failedStatus :: "Component \<Rightarrow> string \<Rightarrow> ComponentStatus" where
  "failedStatus c msg =
     \<lparr>cs_Name = c_Name c, cs_Phase = PhaseFailed, cs_Message = msg, cs_ResourceRef = None\<rparr>"

definition deployedStatus :: "Component \<Rightarrow> unstructured \<Rightarrow> ComponentStatus" where
  "deployedStatus c obj =
     \<lparr>cs_Name = c_Name c, cs_Phase = PhaseDeployed,
      cs_Message = ''Resource deployed successfully'',
      cs_ResourceRef = Some \<lparr>rr_APIVersion = u_apiVersion obj, rr_Kind = u_kind obj,
                             rr_Name = u_name obj, rr_Namespace = u_namespace obj\<rparr>\<rparr>"

section \<open>A cluster for running the controller\<close>

text \<open>
  An in-memory API server in the manner of controller-runtime's fake client: objects are
  stored under kind, namespace and name; every write stamps a fresh resource version; a
  create of a stored object and an update or delete of a missing one or an update with a
  stale resource version are refused; an update of the bundle leaves its status alone, a
  status update writes the status only; a bundle under deletion disappears with its last
  finalizer.
\<close>

record cluster =
  bundles :: "string \<times> string \<rightharpoonup> AppBundle"
  objects :: "GroupVersionKind \<times> string \<times> string \<rightharpoonup> unstructured"
  stored :: "(GroupVersionKind \<times> string \<times> string) list"
  revision :: nat

definition notFound :: error where
  "notFound = Error True ''not found''"

definition fake_GetBundle :: "cluster \<Rightarrow> string \<times> string \<Rightarrow> (error + AppBundle) \<times> cluster" where
  "fake_GetBundle s nn =
     (case bundles s nn of None \<Rightarrow> (Inl notFound, s) | Some b \<Rightarrow> (Inr b, s))"

definition storeBundle :: "cluster \<Rightarrow> AppBundle \<Rightarrow> cluster" where
  "storeBundle s b =
     s\<lparr>bundles := (bundles s)((ab_Namespace b, ab_Name b) :=
          (if ab_DeletionTimestamp b \<noteq> None \<and> ab_Finalizers b = [] then None else Some b)),
       revision := revision s + 1\<rparr>"

definition fake_UpdateBundle :: "cluster \<Rightarrow> AppBundle \<Rightarrow> (error + AppBundle) \<times> cluster" where
  "fake_UpdateBundle s b =
     (case bundles s (ab_Namespace b, ab_Name b) of
        None \<Rightarrow> (Inl notFound, s)
      | Some old \<Rightarrow>
          if ab_ResourceVersion b \<noteq> ab_ResourceVersion old
          then (Inl (Error False ''the object has been modified''), s)
          else (let b' = b\<lparr>Status := Status old,
                            ab_ResourceVersion := natToDec (revision s + 1)\<rparr>
                in (Inr b', storeBundle s b')))"

definition fake_StatusUpdate :: "cluster \<Rightarrow> AppBundle \<Rightarrow> (error + AppBundle) \<times> cluster" where
  "fake_StatusUpdate s b =
     (case bundles s (ab_Namespace b, ab_Name b) of
        None \<Rightarrow> (Inl notFound, s)
      | Some old \<Rightarrow>
          if ab_ResourceVersion b \<noteq> ab_ResourceVersion old
          then (Inl (Error False ''the object has been modified''), s)
          else (let b' = old\<lparr>Status := Status b,
                              ab_ResourceVersion := natToDec (revision s + 1)\<rparr>
                in (Inr b', storeBundle s b')))"

definition fake_Get ::
  "cluster \<Rightarrow> GroupVersionKind \<Rightarrow> string \<times> string \<Rightarrow> (error + unstructured) \<times> cluster" where
  "fake_Get s gvk nn =
     (case objects s (gvk, nn) of None \<Rightarrow> (Inl notFound, s) | Some obj \<Rightarrow> (Inr obj, s))"

definition storeObject :: "cluster \<Rightarrow> unstructured \<Rightarrow> cluster" where
  "storeObject s obj =
     s\<lparr>objects := (objects s)((GroupVersionKind obj, u_namespace obj, u_name obj) \<mapsto> obj),
       stored := List.insert (GroupVersionKind obj, u_namespace obj, u_name obj) (stored s),
       revision := revision s + 1\<rparr>"

definition fake_Create :: "cluster \<Rightarrow> unstructured \<Rightarrow> (error + unstructured) \<times> cluster" where
  "fake_Create s obj =
     (case objects s (GroupVersionKind obj, u_namespace obj, u_name obj) of
        Some old \<Rightarrow> (Inl (Error False ''already exists''), s)
      | None \<Rightarrow>
          (let obj' = obj\<lparr>u_resourceVersion := natToDec (revision s + 1)\<rparr>
           in (Inr obj', storeObject s obj')))"

definition fake_Update :: "cluster \<Rightarrow> unstructured \<Rightarrow> (error + unstructured) \<times> cluster" where
  "fake_Update s obj =
     (case objects s (GroupVersionKind obj, u_namespace obj, u_name obj) of
        None \<Rightarrow> (Inl notFound, s)
      | Some old \<Rightarrow>
          if u_resourceVersion obj \<noteq> u_resourceVersion old
          then (Inl (Error False ''the object has been modified''), s)
          else (let obj' = obj\<lparr>u_resourceVersion := natToDec (revision s + 1)\<rparr>
                in (Inr obj', storeObject s obj')))"

definition fake_Delete :: "cluster \<Rightarrow> unstructured \<Rightarrow> error option \<times> cluster" where
  "fake_Delete s obj =
     (case objects s (GroupVersionKind obj, u_namespace obj, u_name obj) of
        None \<Rightarrow> (Some notFound, s)
      | Some old \<Rightarrow>
          (None, s\<lparr>objects := (objects s)((GroupVersionKind obj, u_namespace obj, u_name obj) := None),
                    stored := removeAll (GroupVersionKind obj, u_namespace obj, u_name obj) (stored s),
                    revision := revision s + 1\<rparr>))"

text \<open>The items of a list kind \<open>FooList\<close> are the stored objects of kind \<open>Foo\<close>, of the
  given namespace when one is given.\<close>

definition fake_List ::
  "cluster \<Rightarrow> GroupVersionKind \<Rightarrow> string \<Rightarrow> (error + unstructured list) \<times> cluster" where
  "fake_List s gvk ns =
     (case gvk of (g, v, k) \<Rightarrow>
        (Inr (List.map_filter
                (\<lambda>key. case key of ((g', v', k'), ns', name) \<Rightarrow>
                   if g' = g \<and> v' = v \<and> k' @ ''List'' = k \<and> (ns = [] \<or> ns' = ns)
                   then objects s key else None)
                (rev (stored s))), s))"

definition fakeClient :: "cluster client" where
  "fakeClient = \<lparr>cl_GetBundle = fake_GetBundle, cl_UpdateBundle = fake_UpdateBundle,
     cl_StatusUpdate = fake_StatusUpdate, cl_Get = fake_Get, cl_Create = fake_Create,
     cl_Update = fake_Update, cl_Delete = fake_Delete, cl_List = fake_List\<rparr>"

definition fakeReconciler :: "cluster AppBundleReconciler" where
  "fakeReconciler = \<lparr>Client = fakeClient,
     Scheme = Some (''app.example.com'', ''v1alpha1'', ''AppBundle'')\<rparr>"

subsection \<open>Sample manifests and bundles\<close>

definition manifest :: "string \<Rightarrow> string \<Rightarrow> string \<Rightarrow> string \<Rightarrow> unstructured" where
  "manifest apiVersion kind namespace name =
     \<lparr>u_apiVersion = apiVersion, u_kind = kind, u_name = name, u_namespace = namespace,
      u_annotations = Map.empty, u_labels = Map.empty, u_ownerReferences = [],
      u_resourceVersion = [], u_body = []\<rparr>"

text \<open>A decoder for the sample templates: each raw template names its manifest, and
  anything else is not valid JSON.\<close>

definition sampleUnmarshal :: "string \<Rightarrow> error + unstructured" where
  "sampleUnmarshal raw =
     (if raw = ''config'' then Inr (manifest ''v1'' ''ConfigMap'' ''default'' ''test-config'')
      else if raw = ''service'' then Inr (manifest ''v1'' ''Service'' ''default'' ''test-service'')
      else if raw = ''namespace'' then Inr (manifest ''v1'' ''Namespace'' [] ''sample-app'')
      else if raw = ''job'' then Inr (manifest ''batch/v1'' ''Job'' ''default'' ''migrate'')
      else if raw = ''deployment'' then Inr (manifest ''apps/v1'' ''Deployment'' ''default'' ''web'')
      else if raw = ''elsewhere'' then Inr (manifest ''v1'' ''ConfigMap'' ''other'' ''shared-config'')
      else Inl (Error False ''invalid character''))"

definition componentOf :: "string \<Rightarrow> int \<Rightarrow> string \<Rightarrow> Component" where
  "componentOf name ord raw =
     \<lparr>c_Name = name, c_Order = word_of_int ord, c_Template = \<lparr>Raw = raw\<rparr>,
      c_PorchPackageRef = None\<rparr>"

definition groupOf :: "string \<Rightarrow> int \<Rightarrow> Component list \<Rightarrow> Group" where
  "groupOf name ord components =
     \<lparr>g_Name = name, g_Order = word_of_int ord, g_Components = components\<rparr>"

definition emptyStatus :: AppBundleStatus where
  "emptyStatus = \<lparr>st_Phase = PhaseUnset, st_Message = [], st_GroupStatuses = [],
     st_ObservedGeneration = 0, st_Conditions = []\<rparr>"

definition bundleOf :: "Group list \<Rightarrow> AppBundle" where
  "bundleOf groups =
     \<lparr>ab_Name = ''demo'', ab_Namespace = ''default'', ab_UID = ''uid-1'', ab_Generation = 1,
      ab_ResourceVersion = ''1'', ab_Finalizers = [], ab_DeletionTimestamp = None,
      Spec = \<lparr>Groups = groups, PorchIntegration = None\<rparr>, Status = emptyStatus\<rparr>"

definition clusterWith :: "AppBundle \<Rightarrow> cluster" where
  "clusterWith b =
     \<lparr>bundles = [(ab_Namespace b, ab_Name b) \<mapsto> b], objects = Map.empty, stored = [],
      revision = 1\<rparr>"

text \<open>What a call is, for reading a trace: the verb and the kind and name it is about.\<close>

fun describe :: "call \<Rightarrow> string \<times> string \<times> string" where
  "describe (CallGetBundle nn) = (''get'', ''AppBundle'', snd nn)"
| "describe (CallUpdateBundle b) = (''update'', ''AppBundle'', ab_Name b)"
| "describe (CallStatusUpdate b) = (''status-update'', ''AppBundle'', ab_Name b)"
| "describe (CallGet gvk nn) = (''get'', snd (snd gvk), snd nn)"
| "describe (CallCreate obj) = (''create'', u_kind obj, u_name obj)"
| "describe (CallUpdate obj) = (''update'', u_kind obj, u_name obj)"
| "describe (CallDelete obj) = (''delete'', u_kind obj, u_name obj)"
| "describe (CallList gvk ns) = (''list'', snd (snd gvk), ns)"

definition testBundle :: AppBundle where
  "testBundle = bundleOf
     [groupOf ''infrastructure'' 0 [componentOf ''config'' 0 ''config''],
      groupOf ''application'' 1 [componentOf ''service'' 0 ''service'']]"

text \<open>Reconciling the ConfigMap component of the test bundle on an empty cluster.\<close>

definition configRun :: "(ComponentStatus \<times> error option) \<times> cluster world" where
  "configRun = reconcileComponent sampleUnmarshal fakeReconciler testBundle
     (groupOf ''infrastructure'' 0 [componentOf ''config'' 0 ''config''])
     (componentOf ''config'' 0 ''config'') 0 ([], clusterWith testBundle)"

text \<open>An object carries a controller reference to the bundle.\<close>

definition controlledBy :: "AppBundle \<Rightarrow> unstructured \<Rightarrow> bool" where
  "controlledBy b obj =
     list_ex (\<lambda>ref. or_Controller ref \<and> or_Name ref = ab_Name b \<and> or_UID ref = ab_UID b)
       (u_ownerReferences obj)"

text \<open>The objects a list of calls creates or updates.\<close>

fun written :: "call list \<Rightarrow> unstructured list" where
  "written [] = []"
| "written (CallCreate obj # cs) = obj # written cs"
| "written (CallUpdate obj # cs) = obj # written cs"
| "written (c # cs) = written cs"

text \<open>A call on a component's object, and an object that keeps the apiVersion, kind and
  name of the decoded template of a component.\<close>

definition objectCall :: "call \<Rightarrow> bool" where
  "objectCall c = (case c of CallGet gvk nn \<Rightarrow> True | CallCreate obj \<Rightarrow> True
                    | CallUpdate obj \<Rightarrow> True | _ \<Rightarrow> False)"

definition fromTemplate :: "(string \<Rightarrow> error + unstructured) \<Rightarrow> Component \<Rightarrow> unstructured \<Rightarrow> bool" where
  "fromTemplate unmarshal c obj =
     (case unmarshal (Raw (c_Template c)) of
        Inl err \<Rightarrow> False
      | Inr t \<Rightarrow> u_apiVersion obj = u_apiVersion t \<and> u_kind obj = u_kind t \<and> u_name obj = u_name t)"

text \<open>An object was decoded from the template of some component of the sorted groups.\<close>

definition fromSomeTemplate :: "(string \<Rightarrow> error + unstructured) \<Rightarrow> Group list \<Rightarrow> unstructured \<Rightarrow> bool" where
  "fromSomeTemplate unmarshal groups obj =
     list_ex (\<lambda>g. list_ex (\<lambda>c. fromTemplate unmarshal c obj) (Slice componentLess (g_Components g)))
       groups"

text \<open>The bundle objects that \<open>updateStatusWithError\<close> and the end of \<open>Reconcile\<close>
  hand to the status writer, the bundle as the group loop starts with it, and the status a
  group starts with.\<close>

definition failedBundle :: "nat \<Rightarrow> AppBundle \<Rightarrow> error \<Rightarrow> AppBundle" where
  "failedBundle now appBundle err =
     appBundle\<lparr>Status := (Status appBundle)
        \<lparr>st_Phase := PhaseFailed,
         st_Message := ErrorMsg err,
         st_Conditions := SetStatusCondition now (st_Conditions (Status appBundle))
           \<lparr>cond_Type = ''Ready'', cond_Status = ConditionFalse,
            cond_Reason = ''DeploymentFailed'', cond_Message = ErrorMsg err,
            cond_ObservedGeneration = ab_Generation appBundle,
            cond_LastTransitionTime = 0\<rparr>\<rparr>\<rparr>"

definition deployedBundle :: "nat \<Rightarrow> AppBundle \<Rightarrow> AppBundle" where
  "deployedBundle now appBundle =
     appBundle\<lparr>Status := (Status appBundle)
        \<lparr>st_Phase := PhaseDeployed,
         st_Message := ''All groups deployed successfully'',
         st_ObservedGeneration := ab_Generation appBundle,
         st_Conditions := SetStatusCondition now (st_Conditions (Status appBundle))
           \<lparr>cond_Type = ''Ready'', cond_Status = ConditionTrue,
            cond_Reason = ''DeploymentComplete'',
            cond_Message = ''All resources deployed successfully'',
            cond_ObservedGeneration = ab_Generation appBundle,
            cond_LastTransitionTime = 0\<rparr>\<rparr>\<rparr>"

definition deployingBundle :: "AppBundle \<Rightarrow> AppBundle" where
  "deployingBundle appBundle =
     appBundle\<lparr>Status := (Status appBundle)\<lparr>st_Phase := PhaseDeploying, st_GroupStatuses := []\<rparr>\<rparr>"

definition initialGroupStatus :: "Group \<Rightarrow> GroupStatus" where
  "initialGroupStatus grp =
     \<lparr>gs_Name = g_Name grp, gs_Phase = PhaseDeploying, gs_Message = [], gs_ComponentStatuses = []\<rparr>"

text \<open>A bundle whose second group has a broken template between two good ones.\<close>

definition badGroup :: Group where
  "badGroup = groupOf ''application'' 1
     [componentOf ''service'' 0 ''service'', componentOf ''broken'' 1 ''{'',
      componentOf ''migrate'' 2 ''job'']"

definition badBundle :: AppBundle where
  "badBundle = bundleOf
     [groupOf ''infrastructure'' 0 [componentOf ''config'' 0 ''config''], badGroup,
      groupOf ''late'' 2 [componentOf ''ns'' 0 ''namespace'']]"

definition badGroupsBefore :: "(AppBundle \<times> error option) \<times> cluster world" where
  "badGroupsBefore = reconcileGroups sampleUnmarshal fakeReconciler (deployingBundle badBundle)
     [groupOf ''infrastructure'' 0 [componentOf ''config'' 0 ''config'']]
     ([], clusterWith badBundle)"

definition badComponentsBefore :: "(GroupStatus \<times> error option) \<times> cluster world" where
  "badComponentsBefore = reconcileComponents sampleUnmarshal fakeReconciler
     (fst (fst badGroupsBefore)) badGroup (baseSyncWave badGroup)
     [componentOf ''service'' 0 ''service''] (initialGroupStatus badGroup) (snd badGroupsBefore)"

definition badComponent :: "(ComponentStatus \<times> error option) \<times> cluster world" where
  "badComponent = reconcileComponent sampleUnmarshal fakeReconciler
     (fst (fst badGroupsBefore)) badGroup (componentOf ''broken'' 1 ''{'') (baseSyncWave badGroup)
     (snd badComponentsBefore)"

text \<open>\<open>Reconcile\<close> after the fetch and the finalizer step.\<close>

definition reconcileFetched ::
  "(string \<Rightarrow> error + unstructured) \<Rightarrow> 's AppBundleReconciler \<Rightarrow> nat \<Rightarrow> AppBundle \<Rightarrow> 's world
    \<Rightarrow> error option \<times> 's world" where
  "reconcileFetched unmarshal r now b w =
     (if ab_DeletionTimestamp b \<noteq> None then reconcileDeletion r b w
      else reconcileLive unmarshal r now b w)"

text \<open>The first pass over the test bundle.\<close>

definition firstRun :: "error option \<times> cluster world" where
  "firstRun = Reconcile sampleUnmarshal fakeReconciler 7 (''default'', ''demo'')
     ([], clusterWith testBundle)"

lemmas client_call_defs = r_GetBundle_def r_UpdateBundle_def r_StatusUpdate_def r_Get_def
  r_Create_def r_Update_def

section \<open>Sync-wave separation\<close>

lemma sint_syncWave:
  assumes "0 \<le> sint (g_Order g)" "0 \<le> sint (c_Order c)"
    and "sint (g_Order g) * 100 + sint (c_Order c) < 2 ^ 63"
  shows "sint (syncWave (baseSyncWave g) c) = sint (g_Order g) * 100 + sint (c_Order c)"
proof -
  let ?o = "sint (g_Order g)" and ?c = "sint (c_Order c)"
  have m: "sint (g_Order g * 100) = ?o * 100"
  proof -
    have "sint (g_Order g * 100) = signed_take_bit 63 (?o * sint (100 :: 64 word))"
      by (simp add: sint_word_ariths)
    also have "sint (100 :: 64 word) = 100" by simp
    also have "signed_take_bit 63 (?o * 100) = ?o * 100"
      using assms by (intro signed_take_bit_int_eq_self) auto
    finally show ?thesis .
  qed
  have "sint (g_Order g * 100 + c_Order c) = signed_take_bit 63 (sint (g_Order g * 100) + ?c)"
    by (simp add: sint_word_ariths)
  also have "\<dots> = ?o * 100 + ?c"
    unfolding m using assms by (intro signed_take_bit_int_eq_self) auto
  finally show ?thesis by (simp add: syncWave_def baseSyncWave_def)
qed

text \<open>
  C1 (as the code has it). A group with fewer than 100 components may still carry a
  component whose \<open>Order\<close> is 100 or more, so the bound that separates the waves of two
  groups is on the component orders of the lower group: with non-negative orders, every
  component order of the lower group below 100, and the higher wave representable in an
  \<open>int\<close>, each wave of the lower-ordered group is strictly below each wave of the
  higher-ordered group.
\<close>

theorem syncWave_separates_groups:
  assumes "sint (g_Order g1) < sint (g_Order g2)"
    and "0 \<le> sint (g_Order g1)"
    and "c1 \<in> set (g_Components g1)" "c2 \<in> set (g_Components g2)"
    and "\<forall>c \<in> set (g_Components g1). 0 \<le> sint (c_Order c) \<and> sint (c_Order c) < 100"
    and "0 \<le> sint (c_Order c2)"
    and "sint (g_Order g2) * 100 + sint (c_Order c2) < 2 ^ 63"
  shows "sint (syncWave (baseSyncWave g1) c1) < sint (syncWave (baseSyncWave g2) c2)"
proof -
  have c1: "0 \<le> sint (c_Order c1)" "sint (c_Order c1) < 100"
    using assms(3,5) by auto
  have w1: "sint (syncWave (baseSyncWave g1) c1) = sint (g_Order g1) * 100 + sint (c_Order c1)"
    using assms c1 by (intro sint_syncWave) auto
  have w2: "sint (syncWave (baseSyncWave g2) c2) = sint (g_Order g2) * 100 + sint (c_Order c2)"
    using assms by (intro sint_syncWave) auto
  show ?thesis unfolding w1 w2 using assms(1) c1 assms(6) by linarith
qed

theorem syncWave_separates_groups_witness:
  "sint (syncWave (baseSyncWave (groupOf ''infrastructure'' 0 [componentOf ''config'' 5 ''config'']))
          (componentOf ''config'' 5 ''config''))
     < sint (syncWave (baseSyncWave (groupOf ''application'' 1 [componentOf ''service'' 0 ''service'']))
          (componentOf ''service'' 0 ''service''))"
  using syncWave_separates_groups
    [of "groupOf ''infrastructure'' 0 [componentOf ''config'' 5 ''config'']"
        "groupOf ''application'' 1 [componentOf ''service'' 0 ''service'']"
        "componentOf ''config'' 5 ''config''" "componentOf ''service'' 0 ''service''"]
  by (simp add: groupOf_def componentOf_def)

text \<open>
  C1 as stated fails: a group of one component whose \<open>Order\<close> is 100 has fewer than 100
  components, and its wave 0 * 100 + 100 is not below the wave 1 * 100 + 0 of the next
  group.
\<close>

theorem syncWave_component_count_counterexample:
  "sint (g_Order (groupOf ''infrastructure'' 0 [componentOf ''late'' 100 ''config'']))
     < sint (g_Order (groupOf ''application'' 1 [componentOf ''service'' 0 ''service'']))
   \<and> length (g_Components (groupOf ''infrastructure'' 0 [componentOf ''late'' 100 ''config''])) < 100
   \<and> length (g_Components (groupOf ''application'' 1 [componentOf ''service'' 0 ''service''])) < 100
   \<and> componentOf ''late'' 100 ''config''
       \<in> set (g_Components (groupOf ''infrastructure'' 0 [componentOf ''late'' 100 ''config'']))
   \<and> componentOf ''service'' 0 ''service''
       \<in> set (g_Components (groupOf ''application'' 1 [componentOf ''service'' 0 ''service'']))
   \<and> \<not> sint (syncWave (baseSyncWave (groupOf ''infrastructure'' 0 [componentOf ''late'' 100 ''config'']))
               (componentOf ''late'' 100 ''config''))
       < sint (syncWave (baseSyncWave (groupOf ''application'' 1 [componentOf ''service'' 0 ''service'']))
               (componentOf ''service'' 0 ''service''))"
  by (simp add: groupOf_def componentOf_def syncWave_def baseSyncWave_def)

section \<open>The outcomes of reconciling one component\<close>

lemma reconcileComponent_unfold:
  "reconcileComponent unmarshal r b g c base w =
     (case unmarshal (Raw (c_Template c)) of
        Inl e \<Rightarrow> ((failedStatus c (''Failed to parse template: '' @ ErrorMsg e), Some e), w)
      | Inr t \<Rightarrow>
          (case SetControllerReference b (decorate b g c base t) (Scheme r) of
             Inl e \<Rightarrow> ((failedStatus c (''Failed to set owner reference: '' @ ErrorMsg e), Some e), w)
           | Inr obj \<Rightarrow>
               (case cl_Get (Client r) (snd w) (GroupVersionKind obj) (u_namespace obj, u_name obj) of
                  (Inl e0, s0) \<Rightarrow>
                    if IsNotFound e0 then
                      (case cl_Create (Client r) s0 obj of
                         (Inl e, s) \<Rightarrow>
                           ((failedStatus c (''Failed to create resource: '' @ ErrorMsg e), Some e),
                            (fst w @ [CallGet (GroupVersionKind obj) (u_namespace obj, u_name obj),
                                      CallCreate obj], s))
                       | (Inr applied, s) \<Rightarrow>
                           ((deployedStatus c applied, None),
                            (fst w @ [CallGet (GroupVersionKind obj) (u_namespace obj, u_name obj),
                                      CallCreate obj], s)))
                    else ((failedStatus c (''Failed to get existing resource: '' @ ErrorMsg e0), Some e0),
                          (fst w @ [CallGet (GroupVersionKind obj) (u_namespace obj, u_name obj)], s0))
                | (Inr existing, s0) \<Rightarrow>
                    (case cl_Update (Client r) s0
                            (obj\<lparr>u_resourceVersion := u_resourceVersion existing\<rparr>) of
                       (Inl e, s) \<Rightarrow>
                         ((failedStatus c (''Failed to update resource: '' @ ErrorMsg e), Some e),
                          (fst w @ [CallGet (GroupVersionKind obj) (u_namespace obj, u_name obj),
                                    CallUpdate (obj\<lparr>u_resourceVersion := u_resourceVersion existing\<rparr>)], s))
                     | (Inr applied, s) \<Rightarrow>
                         ((deployedStatus c applied, None),
                          (fst w @ [CallGet (GroupVersionKind obj) (u_namespace obj, u_name obj),
                                    CallUpdate (obj\<lparr>u_resourceVersion := u_resourceVersion existing\<rparr>)], s))))))"
  by (simp add: reconcileComponent_def decorate_def Let_def failedStatus_def deployedStatus_def
      client_call_defs split: sum.splits prod.splits)

lemma reconcileComponent_cases [consumes 1, case_names parse owner get create_err created update_err updated]:
  assumes "reconcileComponent unmarshal r b g c base w = ((cst, err), w')"
  obtains
    (parse) e where "unmarshal (Raw (c_Template c)) = Inl e" "err = Some e"
      "cst = failedStatus c (''Failed to parse template: '' @ ErrorMsg e)" "w' = w"
  | (owner) t e where "unmarshal (Raw (c_Template c)) = Inr t"
      "SetControllerReference b (decorate b g c base t) (Scheme r) = Inl e" "err = Some e"
      "cst = failedStatus c (''Failed to set owner reference: '' @ ErrorMsg e)" "w' = w"
  | (get) t obj e s where "unmarshal (Raw (c_Template c)) = Inr t"
      "SetControllerReference b (decorate b g c base t) (Scheme r) = Inr obj"
      "cl_Get (Client r) (snd w) (GroupVersionKind obj) (u_namespace obj, u_name obj) = (Inl e, s)"
      "\<not> IsNotFound e" "err = Some e"
      "cst = failedStatus c (''Failed to get existing resource: '' @ ErrorMsg e)"
      "w' = (fst w @ [CallGet (GroupVersionKind obj) (u_namespace obj, u_name obj)], s)"
  | (create_err) t obj e0 s0 e s where "unmarshal (Raw (c_Template c)) = Inr t"
      "SetControllerReference b (decorate b g c base t) (Scheme r) = Inr obj"
      "cl_Get (Client r) (snd w) (GroupVersionKind obj) (u_namespace obj, u_name obj) = (Inl e0, s0)"
      "IsNotFound e0" "cl_Create (Client r) s0 obj = (Inl e, s)" "err = Some e"
      "cst = failedStatus c (''Failed to create resource: '' @ ErrorMsg e)"
      "w' = (fst w @ [CallGet (GroupVersionKind obj) (u_namespace obj, u_name obj), CallCreate obj], s)"
  | (created) t obj e0 s0 applied s where "unmarshal (Raw (c_Template c)) = Inr t"
      "SetControllerReference b (decorate b g c base t) (Scheme r) = Inr obj"
      "cl_Get (Client r) (snd w) (GroupVersionKind obj) (u_namespace obj, u_name obj) = (Inl e0, s0)"
      "IsNotFound e0" "cl_Create (Client r) s0 obj = (Inr applied, s)" "err = None"
      "cst = deployedStatus c applied"
      "w' = (fst w @ [CallGet (GroupVersionKind obj) (u_namespace obj, u_name obj), CallCreate obj], s)"
  | (update_err) t obj existing s0 e s where "unmarshal (Raw (c_Template c)) = Inr t"
      "SetControllerReference b (decorate b g c base t) (Scheme r) = Inr obj"
      "cl_Get (Client r) (snd w) (GroupVersionKind obj) (u_namespace obj, u_name obj) = (Inr existing, s0)"
      "cl_Update (Client r) s0 (obj\<lparr>u_resourceVersion := u_resourceVersion existing\<rparr>) = (Inl e, s)"
      "err = Some e"
      "cst = failedStatus c (''Failed to update resource: '' @ ErrorMsg e)"
      "w' = (fst w @ [CallGet (GroupVersionKind obj) (u_namespace obj, u_name obj),
                      CallUpdate (obj\<lparr>u_resourceVersion := u_resourceVersion existing\<rparr>)], s)"
  | (updated) t obj existing s0 applied s where "unmarshal (Raw (c_Template c)) = Inr t"
      "SetControllerReference b (decorate b g c base t) (Scheme r) = Inr obj"
      "cl_Get (Client r) (snd w) (GroupVersionKind obj) (u_namespace obj, u_name obj) = (Inr existing, s0)"
      "cl_Update (Client r) s0 (obj\<lparr>u_resourceVersion := u_resourceVersion existing\<rparr>) = (Inr applied, s)"
      "err = None"
      "cst = deployedStatus c applied"
      "w' = (fst w @ [CallGet (GroupVersionKind obj) (u_namespace obj, u_name obj),
                      CallUpdate (obj\<lparr>u_resourceVersion := u_resourceVersion existing\<rparr>)], s)"
proof (cases "unmarshal (Raw (c_Template c))")
  case (Inl e)
  with assms parse show ?thesis
    by (simp add: reconcileComponent_unfold)
next
  case t: (Inr t)
  show ?thesis
  proof (cases "SetControllerReference b (decorate b g c base t) (Scheme r)")
    case (Inl e)
    with assms t owner show ?thesis
      by (simp add: reconcileComponent_unfold)
  next
    case obj: (Inr obj)
    obtain gr s0 where g: "cl_Get (Client r) (snd w) (GroupVersionKind obj) (u_namespace obj, u_name obj) = (gr, s0)"
      by (cases "cl_Get (Client r) (snd w) (GroupVersionKind obj) (u_namespace obj, u_name obj)")
    show ?thesis
    proof (cases gr)
      case e0: (Inl e0)
      show ?thesis
      proof (cases "IsNotFound e0")
        case False
        with assms t obj g e0 show ?thesis
          by (intro get[of t obj e0 s0]) (simp_all add: reconcileComponent_unfold)
      next
        case True
        obtain cr s where cr: "cl_Create (Client r) s0 obj = (cr, s)"
          by (cases "cl_Create (Client r) s0 obj")
        show ?thesis
        proof (cases cr)
          case (Inl e)
          with assms t obj g e0 True cr show ?thesis
            by (intro create_err[of t obj e0 s0 e s]) (simp_all add: reconcileComponent_unfold)
        next
          case (Inr applied)
          with assms t obj g e0 True cr show ?thesis
            by (intro created[of t obj e0 s0 applied s]) (simp_all add: reconcileComponent_unfold)
        qed
      qed
    next
      case ex: (Inr existing)
      obtain ur s where ur: "cl_Update (Client r) s0 (obj\<lparr>u_resourceVersion := u_resourceVersion existing\<rparr>) = (ur, s)"
        by (cases "cl_Update (Client r) s0 (obj\<lparr>u_resourceVersion := u_resourceVersion existing\<rparr>)")
      show ?thesis
      proof (cases ur)
        case (Inl e)
        with assms t obj g ex ur show ?thesis
          by (intro update_err[of t obj existing s0 e s]) (simp_all add: reconcileComponent_unfold)
      next
        case (Inr applied)
        with assms t obj g ex ur show ?thesis
          by (intro updated[of t obj existing s0 applied s]) (simp_all add: reconcileComponent_unfold)
      qed
    qed
  qed
qed

text \<open>
  C10. The status \<open>reconcileComponent\<close> returns carries a resource reference exactly when
  its phase is Deployed: with an error the phase is Failed and the reference is nil; with
  no error the phase is Deployed and the reference holds the apiVersion, kind, name and
  namespace of the object as the client returned it from the create or update call, the
  last call issued.
\<close>

theorem reconcileComponent_resourceRef_iff_deployed:
  assumes "reconcileComponent unmarshal r appBundle grp c base w = ((cst, err), w')"
  shows "((cs_ResourceRef cst \<noteq> None) = (cs_Phase cst = PhaseDeployed))
       \<and> (err \<noteq> None \<longrightarrow> cs_Phase cst = PhaseFailed \<and> cs_ResourceRef cst = None)
       \<and> (err = None \<longrightarrow> cs_Phase cst = PhaseDeployed
            \<and> (\<exists>sent applied s.
                  ((last (fst w') = CallCreate sent
                      \<and> cl_Create (Client r) s sent = (Inr applied, snd w'))
                    \<or> (last (fst w') = CallUpdate sent
                      \<and> cl_Update (Client r) s sent = (Inr applied, snd w')))
                  \<and> cs_ResourceRef cst =
                      Some \<lparr>rr_APIVersion = u_apiVersion applied, rr_Kind = u_kind applied,
                            rr_Name = u_name applied, rr_Namespace = u_namespace applied\<rparr>))"
  using assms
proof (cases rule: reconcileComponent_cases)
  case (created t obj e0 s0 applied s)
  then show ?thesis by (auto simp: deployedStatus_def)
next
  case (updated t obj existing s0 applied s)
  then show ?thesis by (auto simp: deployedStatus_def)
qed (simp_all add: failedStatus_def)

theorem reconcileComponent_resourceRef_iff_deployed_witness:
  "snd (fst configRun) = None \<and> cs_Phase (fst (fst configRun)) = PhaseDeployed
    \<and> cs_ResourceRef (fst (fst configRun)) \<noteq> None"
proof -
  have e: "snd (fst configRun) = None" by code_simp
  have "reconcileComponent sampleUnmarshal fakeReconciler testBundle
     (groupOf ''infrastructure'' 0 [componentOf ''config'' 0 ''config''])
     (componentOf ''config'' 0 ''config'') 0 ([], clusterWith testBundle)
     = ((fst (fst configRun), snd (fst configRun)), snd configRun)"
    by (simp add: configRun_def)
  from reconcileComponent_resourceRef_iff_deployed[OF this] e show ?thesis by simp
qed

section \<open>Owner references\<close>

lemma list_ex_upsertOwnerRefs: "P ref \<Longrightarrow> list_ex P (upsertOwnerRefs ref owners)"
  by (induction owners) auto

lemma SetControllerReference_Inr:
  assumes "SetControllerReference b obj scheme = Inr obj'"
  shows "controlledBy b obj'" and "u_namespace obj' = u_namespace obj"
    and "ab_Namespace b \<noteq> [] \<Longrightarrow> u_namespace obj = ab_Namespace b"
  using assms
  by (auto simp: SetControllerReference_def validateOwner_def controlledBy_def Let_def
      intro!: list_ex_upsertOwnerRefs split: option.splits if_splits prod.splits)

lemma SetControllerReference_cross_namespace:
  assumes "ab_Namespace b \<noteq> []" "u_namespace obj \<noteq> []" "u_namespace obj \<noteq> ab_Namespace b"
  shows "SetControllerReference b obj scheme = Inl (Error False
     (''cross-namespace owner references are disallowed, owner's namespace '' @ ab_Namespace b
       @ '', obj's namespace '' @ u_namespace obj))"
  using assms by (simp add: SetControllerReference_def validateOwner_def Let_def)

lemma u_namespace_decorate:
  "u_namespace (decorate b g c base t) =
     (if u_namespace t = [] \<and> ab_Namespace b \<noteq> [] then ab_Namespace b else u_namespace t)"
  by (simp add: decorate_def Let_def)

lemma SetControllerReference_decorate:
  assumes "SetControllerReference b (decorate b g c base t) scheme = Inr obj"
  shows "\<not> (ab_Namespace b \<noteq> [] \<and> u_namespace t \<noteq> [] \<and> u_namespace t \<noteq> ab_Namespace b)"
    and "controlledBy b obj"
    and "ab_Namespace b \<noteq> [] \<longrightarrow> u_namespace obj = ab_Namespace b"
    and "controlledBy b (obj\<lparr>u_resourceVersion := rv\<rparr>)"
proof -
  note f = SetControllerReference_Inr[OF assms]
  show "\<not> (ab_Namespace b \<noteq> [] \<and> u_namespace t \<noteq> [] \<and> u_namespace t \<noteq> ab_Namespace b)"
    using f(3) by (auto simp: u_namespace_decorate split: if_splits)
  show "controlledBy b obj" by (rule f(1))
  show "ab_Namespace b \<noteq> [] \<longrightarrow> u_namespace obj = ab_Namespace b"
    using f(2,3) by simp
  show "controlledBy b (obj\<lparr>u_resourceVersion := rv\<rparr>)"
    using f(1) by (simp add: controlledBy_def)
qed

section \<open>The calls of a pass\<close>

lemma written_append [simp]: "written (xs @ ys) = written xs @ written ys"
  by (induction xs rule: written.induct) auto

lemma SetControllerReference_identity:
  assumes "SetControllerReference b obj scheme = Inr obj'"
  shows "u_apiVersion obj' = u_apiVersion obj" "u_kind obj' = u_kind obj" "u_name obj' = u_name obj"
  using assms
  by (auto simp: SetControllerReference_def Let_def split: option.splits if_splits prod.splits)

lemma decorate_identity:
  "u_apiVersion (decorate b g c base t) = u_apiVersion t"
  "u_kind (decorate b g c base t) = u_kind t"
  "u_name (decorate b g c base t) = u_name t"
  by (simp_all add: decorate_def Let_def)

lemma reconcileComponent_calls:
  assumes "reconcileComponent unmarshal r b g c base w = (res, w')"
  shows "\<exists>calls. fst w' = fst w @ calls \<and> list_all objectCall calls
           \<and> list_all (fromTemplate unmarshal c) (written calls)"
proof -
  obtain cst err where "res = (cst, err)" by (cases res)
  with assms have "reconcileComponent unmarshal r b g c base w = ((cst, err), w')" by simp
  then show ?thesis
  proof (cases rule: reconcileComponent_cases)
    case (get t obj e s)
    then show ?thesis by (simp add: objectCall_def)
  next
    case (create_err t obj e0 s0 e s)
    then show ?thesis
      using SetControllerReference_identity[OF create_err(2)]
      by (simp add: objectCall_def fromTemplate_def decorate_identity)
  next
    case (created t obj e0 s0 applied s)
    then show ?thesis
      using SetControllerReference_identity[OF created(2)]
      by (simp add: objectCall_def fromTemplate_def decorate_identity)
  next
    case (update_err t obj existing s0 e s)
    then show ?thesis
      using SetControllerReference_identity[OF update_err(2)]
      by (simp add: objectCall_def fromTemplate_def decorate_identity)
  next
    case (updated t obj existing s0 applied s)
    then show ?thesis
      using SetControllerReference_identity[OF updated(2)]
      by (simp add: objectCall_def fromTemplate_def decorate_identity)
  qed simp_all
qed

lemma reconcileComponents_calls:
  assumes "reconcileComponents unmarshal r b g base cs gst w = (res, w')"
  shows "\<exists>calls. fst w' = fst w @ calls \<and> list_all objectCall calls
           \<and> list_all (\<lambda>obj. list_ex (\<lambda>c. fromTemplate unmarshal c obj) cs) (written calls)"
  using assms
proof (induction cs arbitrary: gst w)
  case Nil
  then show ?case by simp
next
  case (Cons c cs)
  obtain cst err w1 where rc: "reconcileComponent unmarshal r b g c base w = ((cst, err), w1)"
    by (metis prod.exhaust)
  from reconcileComponent_calls[OF rc] obtain calls1 where
    c1: "fst w1 = fst w @ calls1" "list_all objectCall calls1"
      "list_all (fromTemplate unmarshal c) (written calls1)" by blast
  show ?case
  proof (cases err)
    case (Some e)
    with Cons.prems rc have "w' = w1" by simp
    with c1 show ?thesis by (auto simp: list_all_iff)
  next
    case None
    with Cons.prems rc have "reconcileComponents unmarshal r b g base cs
        (gst\<lparr>gs_ComponentStatuses := gs_ComponentStatuses gst @ [cst]\<rparr>) w1 = (res, w')"
      by simp
    from Cons.IH[OF this] obtain calls2 where
      c2: "fst w' = fst w1 @ calls2" "list_all objectCall calls2"
        "list_all (\<lambda>obj. list_ex (\<lambda>c. fromTemplate unmarshal c obj) cs) (written calls2)" by blast
    have "fst w' = fst w @ (calls1 @ calls2)" using c1 c2 by simp
    moreover have "list_all objectCall (calls1 @ calls2)" using c1 c2 by simp
    moreover have "list_all (\<lambda>obj. list_ex (\<lambda>c. fromTemplate unmarshal c obj) (c # cs))
        (written (calls1 @ calls2))"
      using c1(3) c2(3) by (auto simp: list_all_iff)
    ultimately show ?thesis by blast
  qed
qed

lemma reconcileGroup_calls:
  assumes "reconcileGroup unmarshal r b g w = (res, w')"
  shows "\<exists>calls. fst w' = fst w @ calls \<and> list_all objectCall calls
           \<and> list_all (\<lambda>obj. list_ex (\<lambda>c. fromTemplate unmarshal c obj)
                  (Slice componentLess (g_Components g))) (written calls)"
proof -
  obtain res1 w1 where rc: "reconcileComponents unmarshal r b g (baseSyncWave g)
      (Slice componentLess (g_Components g))
      \<lparr>gs_Name = g_Name g, gs_Phase = PhaseDeploying, gs_Message = [], gs_ComponentStatuses = []\<rparr> w
      = (res1, w1)" by (metis prod.exhaust)
  with assms have "w' = w1"
    by (auto simp: reconcileGroup_def Let_def split: prod.splits option.splits)
  with reconcileComponents_calls[OF rc] show ?thesis by simp
qed

lemma reconcileGroups_calls:
  assumes "reconcileGroups unmarshal r b gs w = (res, w')"
  shows "\<exists>calls. fst w' = fst w @ calls \<and> list_all objectCall calls
           \<and> list_all (fromSomeTemplate unmarshal gs) (written calls)"
  using assms
proof (induction gs arbitrary: b w)
  case Nil
  then show ?case by simp
next
  case (Cons g gs)
  obtain gst err w1 where rg: "reconcileGroup unmarshal r b g w = ((gst, err), w1)"
    by (metis prod.exhaust)
  from reconcileGroup_calls[OF rg] obtain calls1 where
    c1: "fst w1 = fst w @ calls1" "list_all objectCall calls1"
      "list_all (\<lambda>obj. list_ex (\<lambda>c. fromTemplate unmarshal c obj)
                  (Slice componentLess (g_Components g))) (written calls1)" by blast
  show ?case
  proof (cases err)
    case (Some e)
    with Cons.prems rg have "w' = w1" by simp
    with c1 show ?thesis by (auto simp: list_all_iff fromSomeTemplate_def)
  next
    case None
    with Cons.prems rg obtain b1 where "reconcileGroups unmarshal r b1 gs w1 = (res, w')"
      by simp
    from Cons.IH[OF this] obtain calls2 where
      c2: "fst w' = fst w1 @ calls2" "list_all objectCall calls2"
        "list_all (fromSomeTemplate unmarshal gs) (written calls2)" by blast
    have "fst w' = fst w @ (calls1 @ calls2)" using c1 c2 by simp
    moreover have "list_all objectCall (calls1 @ calls2)" using c1 c2 by simp
    moreover have "list_all (fromSomeTemplate unmarshal (g # gs)) (written (calls1 @ calls2))"
      using c1(3) c2(3) by (auto simp: list_all_iff fromSomeTemplate_def)
    ultimately show ?thesis by blast
  qed
qed

lemma updateStatusWithError_unfold:
  "updateStatusWithError r now b err w =
     (case cl_StatusUpdate (Client r) (snd w) (failedBundle now b err) of
        (Inl statusErr, s) \<Rightarrow> (Some statusErr, (fst w @ [CallStatusUpdate (failedBundle now b err)], s))
      | (Inr b', s) \<Rightarrow> (Some err, (fst w @ [CallStatusUpdate (failedBundle now b err)], s)))"
  by (simp add: updateStatusWithError_def failedBundle_def Let_def r_StatusUpdate_def
      split: prod.splits sum.splits)

lemma deployGroups_unfold:
  "deployGroups unmarshal r now b w =
     (case reconcileGroups unmarshal r (deployingBundle b) (Slice groupLess (Groups (Spec b))) w of
        ((b1, Some err), w1) \<Rightarrow> updateStatusWithError r now b1 err w1
      | ((b1, None), w1) \<Rightarrow>
          (case cl_StatusUpdate (Client r) (snd w1) (deployedBundle now b1) of
             (Inl err, s) \<Rightarrow> (Some err, (fst w1 @ [CallStatusUpdate (deployedBundle now b1)], s))
           | (Inr b', s) \<Rightarrow> (None, (fst w1 @ [CallStatusUpdate (deployedBundle now b1)], s))))"
  by (simp add: deployGroups_def deployedBundle_def deployingBundle_def Let_def r_StatusUpdate_def
      split: prod.splits sum.splits option.splits)

lemma reconcileGroup_unfold:
  "reconcileGroup unmarshal r b g w =
     (case reconcileComponents unmarshal r b g (baseSyncWave g)
             (Slice componentLess (g_Components g)) (initialGroupStatus g) w of
        ((gst, Some err), w1) \<Rightarrow> ((gst, Some err), w1)
      | ((gst, None), w1) \<Rightarrow>
          ((gst\<lparr>gs_Phase := PhaseDeployed,
                gs_Message := ''All components deployed successfully''\<rparr>, None), w1))"
  by (simp add: reconcileGroup_def initialGroupStatus_def Let_def)

lemma reconcileComponents_append:
  "reconcileComponents unmarshal r b g base (xs @ ys) gst w =
     (case reconcileComponents unmarshal r b g base xs gst w of
        ((gst1, Some err), w1) \<Rightarrow> ((gst1, Some err), w1)
      | ((gst1, None), w1) \<Rightarrow> reconcileComponents unmarshal r b g base ys gst1 w1)"
  by (induction xs arbitrary: gst w) (auto split: prod.splits option.splits)

lemma reconcileGroups_append:
  "reconcileGroups unmarshal r b (xs @ ys) w =
     (case reconcileGroups unmarshal r b xs w of
        ((b1, Some err), w1) \<Rightarrow> ((b1, Some err), w1)
      | ((b1, None), w1) \<Rightarrow> reconcileGroups unmarshal r b1 ys w1)"
  by (induction xs arbitrary: b w) (auto split: prod.splits option.splits)

lemma reconcileComponent_success_deployed:
  assumes "reconcileComponent unmarshal r b g c base w = ((cst, None), w')"
  shows "cs_Phase cst = PhaseDeployed"
  using assms by (cases rule: reconcileComponent_cases) (simp_all add: deployedStatus_def)

lemma reconcileComponents_statuses:
  assumes "reconcileComponents unmarshal r b g base cs gst w = ((gst1, err), w1)"
  shows "\<exists>sts. gs_ComponentStatuses gst1 = gs_ComponentStatuses gst @ sts
           \<and> gs_Name gst1 = gs_Name gst
           \<and> (err = None \<longrightarrow> length sts = length cs \<and> list_all (\<lambda>s. cs_Phase s = PhaseDeployed) sts)"
  using assms
proof (induction cs arbitrary: gst w)
  case Nil
  then show ?case by simp
next
  case (Cons c cs)
  obtain cst e w' where rc: "reconcileComponent unmarshal r b g c base w = ((cst, e), w')"
    by (metis prod.exhaust)
  show ?case
  proof (cases e)
    case (Some e')
    with Cons.prems rc show ?thesis by auto
  next
    case None
    from reconcileComponent_success_deployed[OF rc[unfolded None]]
    have dep: "cs_Phase cst = PhaseDeployed" .
    from None Cons.prems rc have "reconcileComponents unmarshal r b g base cs
        (gst\<lparr>gs_ComponentStatuses := gs_ComponentStatuses gst @ [cst]\<rparr>) w' = ((gst1, err), w1)"
      by simp
    from Cons.IH[OF this] dep show ?thesis by auto
  qed
qed

lemma reconcileGroups_bundle:
  assumes "reconcileGroups unmarshal r b gs w = ((b1, err), w1)"
  shows "\<exists>sts. b1 = b\<lparr>Status := (Status b)\<lparr>st_GroupStatuses := st_GroupStatuses (Status b) @ sts\<rparr>\<rparr>
           \<and> (err = None \<longrightarrow> length sts = length gs \<and> list_all (\<lambda>s. gs_Phase s = PhaseDeployed) sts)"
  using assms
proof (induction gs arbitrary: b w)
  case Nil
  then have "b1 = b" "err = None" by simp_all
  then show ?case by (intro exI[of _ "[]"]) simp
next
  case (Cons g gs)
  obtain gst e w' where rg: "reconcileGroup unmarshal r b g w = ((gst, e), w')"
    by (metis prod.exhaust)
  let ?b = "b\<lparr>Status := (Status b)\<lparr>st_GroupStatuses := st_GroupStatuses (Status b) @ [gst]\<rparr>\<rparr>"
  show ?case
  proof (cases e)
    case (Some e')
    with Cons.prems rg have "b1 = ?b" "err = Some e'" by simp_all
    then show ?thesis by (intro exI[of _ "[gst]"]) simp
  next
    case None
    with rg have "gs_Phase gst = PhaseDeployed"
      by (auto simp: reconcileGroup_unfold split: prod.splits option.splits)
    moreover from None Cons.prems rg have "reconcileGroups unmarshal r ?b gs w' = ((b1, err), w1)"
      by simp
    from Cons.IH[OF this] obtain sts where
      "b1 = ?b\<lparr>Status := (Status ?b)\<lparr>st_GroupStatuses := st_GroupStatuses (Status ?b) @ sts\<rparr>\<rparr>"
      "err = None \<longrightarrow> length sts = length gs \<and> list_all (\<lambda>s. gs_Phase s = PhaseDeployed) sts"
      by blast
    ultimately show ?thesis by (intro exI[of _ "gst # sts"]) simp
  qed
qed

section \<open>Error propagation\<close>

text \<open>
  C2. Let the sorted groups be \<open>gpre @ g # gpost\<close> and the sorted components of \<open>g\<close> be
  \<open>cpre @ c # cpost\<close>; let the groups of \<open>gpre\<close> and the components of \<open>cpre\<close> succeed
  and the reconciliation of \<open>c\<close> return the error \<open>err\<close>. Then the status of \<open>c\<close> is
  Failed with a message that ends in the text of \<open>err\<close>; the status of \<open>g\<close> is Failed
  and names the component and the error; the pass hands the status writer a bundle whose
  phase is Failed and whose message is the text of \<open>err\<close>; and that status update is the
  only call issued after the calls of \<open>c\<close>: the components of \<open>cpost\<close> and the groups of
  \<open>gpost\<close> get no call and no status entry.
\<close>

theorem component_error_fails_all_levels_and_stops:
  assumes groups: "Slice groupLess (Groups (Spec b)) = gpre @ g # gpost"
    and earlier_groups:
      "reconcileGroups unmarshal r (deployingBundle b) gpre w = ((b1, None), w1)"
    and comps: "Slice componentLess (g_Components g) = cpre @ c # cpost"
    and earlier_comps:
      "reconcileComponents unmarshal r b1 g (baseSyncWave g) cpre (initialGroupStatus g) w1
         = ((gst1, None), w2)"
    and failing: "reconcileComponent unmarshal r b1 g c (baseSyncWave g) w2 = ((cst, Some err), w3)"
  shows "cs_Phase cst = PhaseFailed \<and> (\<exists>prefix. cs_Message cst = prefix @ ErrorMsg err)
     \<and> (\<exists>res s x gstF.
           deployGroups unmarshal r now b w = (Some res, (fst w3 @ [CallStatusUpdate x], s))
         \<and> st_Phase (Status x) = PhaseFailed \<and> st_Message (Status x) = ErrorMsg err
         \<and> st_GroupStatuses (Status x) = st_GroupStatuses (Status b1) @ [gstF]
         \<and> length (st_GroupStatuses (Status b1)) = length gpre
         \<and> list_all (\<lambda>s. gs_Phase s = PhaseDeployed) (st_GroupStatuses (Status b1))
         \<and> gs_Name gstF = g_Name g \<and> gs_Phase gstF = PhaseFailed
         \<and> gs_Message gstF = ''Failed to deploy component '' @ c_Name c @ '': '' @ ErrorMsg err
         \<and> gs_ComponentStatuses gstF = gs_ComponentStatuses gst1 @ [cst]
         \<and> length (gs_ComponentStatuses gst1) = length cpre
         \<and> list_all (\<lambda>s. cs_Phase s = PhaseDeployed) (gs_ComponentStatuses gst1))"
proof -
  have cst: "cs_Phase cst = PhaseFailed" "\<exists>prefix. cs_Message cst = prefix @ ErrorMsg err"
    using failing by (cases rule: reconcileComponent_cases; simp add: failedStatus_def; blast)+
  define gstF where "gstF = gst1\<lparr>gs_Phase := PhaseFailed,
      gs_Message := ''Failed to deploy component '' @ c_Name c @ '': '' @ ErrorMsg err,
      gs_ComponentStatuses := gs_ComponentStatuses gst1 @ [cst]\<rparr>"
  define bF where "bF = b1\<lparr>Status := (Status b1)
      \<lparr>st_GroupStatuses := st_GroupStatuses (Status b1) @ [gstF]\<rparr>\<rparr>"
  from reconcileComponents_statuses[OF earlier_comps]
  have g1: "gs_Name gst1 = g_Name g" "length (gs_ComponentStatuses gst1) = length cpre"
    "list_all (\<lambda>s. cs_Phase s = PhaseDeployed) (gs_ComponentStatuses gst1)"
    by (auto simp: initialGroupStatus_def)
  from reconcileGroups_bundle[OF earlier_groups]
  have b1: "length (st_GroupStatuses (Status b1)) = length gpre"
    "list_all (\<lambda>s. gs_Phase s = PhaseDeployed) (st_GroupStatuses (Status b1))"
    by (auto simp: deployingBundle_def)
  have "reconcileComponents unmarshal r b1 g (baseSyncWave g) (cpre @ c # cpost)
      (initialGroupStatus g) w1 = ((gstF, Some err), w3)"
    by (simp add: reconcileComponents_append earlier_comps failing gstF_def)
  then have rg: "reconcileGroup unmarshal r b1 g w1 = ((gstF, Some err), w3)"
    by (simp add: reconcileGroup_unfold comps)
  have "reconcileGroups unmarshal r (deployingBundle b) (gpre @ g # gpost) w = ((bF, Some err), w3)"
    by (simp add: reconcileGroups_append earlier_groups rg bF_def)
  then have dg: "deployGroups unmarshal r now b w = updateStatusWithError r now bF err w3"
    by (simp add: deployGroups_unfold groups)
  obtain sr s where su: "cl_StatusUpdate (Client r) (snd w3) (failedBundle now bF err) = (sr, s)"
    by (metis prod.exhaust)
  have "\<exists>res. deployGroups unmarshal r now b w
      = (Some res, (fst w3 @ [CallStatusUpdate (failedBundle now bF err)], s))"
    unfolding dg updateStatusWithError_unfold su by (cases sr) simp_all
  moreover have "st_Phase (Status (failedBundle now bF err)) = PhaseFailed"
    "st_Message (Status (failedBundle now bF err)) = ErrorMsg err"
    "st_GroupStatuses (Status (failedBundle now bF err)) = st_GroupStatuses (Status b1) @ [gstF]"
    by (simp_all add: failedBundle_def bF_def)
  moreover have "gs_Name gstF = g_Name g" "gs_Phase gstF = PhaseFailed"
    "gs_Message gstF = ''Failed to deploy component '' @ c_Name c @ '': '' @ ErrorMsg err"
    "gs_ComponentStatuses gstF = gs_ComponentStatuses gst1 @ [cst]"
    using g1 by (simp_all add: gstF_def)
  ultimately show ?thesis using cst b1 g1 by blast
qed

theorem component_error_fails_all_levels_and_stops_witness:
  "map describe (fst (snd badComponent)) =
     [(''get'', ''ConfigMap'', ''test-config''), (''create'', ''ConfigMap'', ''test-config''),
      (''get'', ''Service'', ''test-service''), (''create'', ''Service'', ''test-service'')]
   \<and> cs_Phase (fst (fst badComponent)) = PhaseFailed
   \<and> (\<exists>res s x gstF.
         deployGroups sampleUnmarshal fakeReconciler 7 badBundle ([], clusterWith badBundle)
           = (Some res, (fst (snd badComponent) @ [CallStatusUpdate x], s))
       \<and> st_Phase (Status x) = PhaseFailed \<and> st_Message (Status x) = ''invalid character''
       \<and> st_GroupStatuses (Status x) = st_GroupStatuses (Status (fst (fst badGroupsBefore))) @ [gstF]
       \<and> length (st_GroupStatuses (Status (fst (fst badGroupsBefore)))) = 1
       \<and> gs_Phase gstF = PhaseFailed
       \<and> length (gs_ComponentStatuses gstF) = 2)"
proof -
  have tr: "map describe (fst (snd badComponent)) =
     [(''get'', ''ConfigMap'', ''test-config''), (''create'', ''ConfigMap'', ''test-config''),
      (''get'', ''Service'', ''test-service''), (''create'', ''Service'', ''test-service'')]"
    by code_simp
  have groups: "Slice groupLess (Groups (Spec badBundle))
      = [groupOf ''infrastructure'' 0 [componentOf ''config'' 0 ''config'']] @ badGroup
          # [groupOf ''late'' 2 [componentOf ''ns'' 0 ''namespace'']]"
    by code_simp
  have "snd (fst badGroupsBefore) = None" by code_simp
  then have earlier_groups: "reconcileGroups sampleUnmarshal fakeReconciler (deployingBundle badBundle)
     [groupOf ''infrastructure'' 0 [componentOf ''config'' 0 ''config'']]
     ([], clusterWith badBundle) = ((fst (fst badGroupsBefore), None), snd badGroupsBefore)"
    unfolding badGroupsBefore_def by (metis prod.collapse)
  have comps: "Slice componentLess (g_Components badGroup)
      = [componentOf ''service'' 0 ''service''] @ componentOf ''broken'' 1 ''{''
          # [componentOf ''migrate'' 2 ''job'']"
    by code_simp
  have "snd (fst badComponentsBefore) = None" by code_simp
  then have earlier_comps: "reconcileComponents sampleUnmarshal fakeReconciler
     (fst (fst badGroupsBefore)) badGroup (baseSyncWave badGroup)
     [componentOf ''service'' 0 ''service''] (initialGroupStatus badGroup) (snd badGroupsBefore)
     = ((fst (fst badComponentsBefore), None), snd badComponentsBefore)"
    unfolding badComponentsBefore_def by (metis prod.collapse)
  have "snd (fst badComponent) = Some (Error False ''invalid character'')" by code_simp
  then have failing: "reconcileComponent sampleUnmarshal fakeReconciler
     (fst (fst badGroupsBefore)) badGroup (componentOf ''broken'' 1 ''{'') (baseSyncWave badGroup)
     (snd badComponentsBefore)
     = ((fst (fst badComponent), Some (Error False ''invalid character'')), snd badComponent)"
    unfolding badComponent_def by (metis prod.collapse)
  from component_error_fails_all_levels_and_stops
    [OF groups earlier_groups comps earlier_comps failing, of 7]
  obtain res s x gstF where
    "deployGroups sampleUnmarshal fakeReconciler 7 badBundle ([], clusterWith badBundle)
           = (Some res, (fst (snd badComponent) @ [CallStatusUpdate x], s))"
    "cs_Phase (fst (fst badComponent)) = PhaseFailed"
    "st_Phase (Status x) = PhaseFailed" "st_Message (Status x) = ''invalid character''"
    "st_GroupStatuses (Status x) = st_GroupStatuses (Status (fst (fst badGroupsBefore))) @ [gstF]"
    "length (st_GroupStatuses (Status (fst (fst badGroupsBefore)))) = 1"
    "gs_Phase gstF = PhaseFailed"
    "gs_ComponentStatuses gstF = gs_ComponentStatuses (fst (fst badComponentsBefore)) @ [fst (fst badComponent)]"
    "length (gs_ComponentStatuses (fst (fst badComponentsBefore))) = 1"
    by auto
  then show ?thesis using tr by (intro conjI exI[of _ res] exI[of _ s] exI[of _ x] exI[of _ gstF]) simp_all
qed

lemma deployGroups_calls:
  assumes "deployGroups unmarshal r now b w = (res, w')"
  shows "\<exists>calls x. fst w' = fst w @ calls @ [CallStatusUpdate x]
           \<and> list_all objectCall calls
           \<and> list_all (fromSomeTemplate unmarshal (Slice groupLess (Groups (Spec b)))) (written calls)
           \<and> x\<lparr>Status := Status b\<rparr> = b"
proof -
  obtain b1 err w1 where rg: "reconcileGroups unmarshal r (deployingBundle b)
      (Slice groupLess (Groups (Spec b))) w = ((b1, err), w1)"
    by (metis prod.exhaust)
  from reconcileGroups_calls[OF rg] obtain calls where
    c: "fst w1 = fst w @ calls" "list_all objectCall calls"
      "list_all (fromSomeTemplate unmarshal (Slice groupLess (Groups (Spec b)))) (written calls)"
    by blast
  from reconcileGroups_bundle[OF rg] obtain sts where
    "b1 = (deployingBundle b)\<lparr>Status := (Status (deployingBundle b))
        \<lparr>st_GroupStatuses := st_GroupStatuses (Status (deployingBundle b)) @ sts\<rparr>\<rparr>"
    by blast
  then have b1: "b1\<lparr>Status := Status b\<rparr> = b" by (simp add: deployingBundle_def)
  show ?thesis
  proof (cases err)
    case None
    let ?x = "deployedBundle now b1"
    have "?x\<lparr>Status := Status b\<rparr> = b" using b1 by (simp add: deployedBundle_def)
    moreover have "fst w' = fst w @ calls @ [CallStatusUpdate ?x]"
      using assms rg None c(1)
      by (auto simp: deployGroups_unfold split: prod.splits sum.splits)
    ultimately show ?thesis using c by blast
  next
    case (Some e)
    let ?x = "failedBundle now b1 e"
    have "?x\<lparr>Status := Status b\<rparr> = b" using b1 by (simp add: failedBundle_def)
    moreover have "fst w' = fst w @ calls @ [CallStatusUpdate ?x]"
      using assms rg Some c(1)
      by (auto simp: deployGroups_unfold updateStatusWithError_unfold split: prod.splits sum.splits)
    ultimately show ?thesis using c by blast
  qed
qed

lemma reconcileLive_unfold:
  "reconcileLive unmarshal r now b w =
     (case (if st_Phase (Status b) = PhaseUnset
            then r_StatusUpdate r (b\<lparr>Status := (Status b)\<lparr>st_Phase := PhasePending\<rparr>\<rparr>) w
            else (Inr b, w)) of
        (Inl err, w) \<Rightarrow> (Some err, w)
      | (Inr b, w) \<Rightarrow> deployGroups unmarshal r now b w)"
  by (simp add: reconcileLive_def reconcilePorchPackages_def split: prod.splits sum.splits)

lemma Reconcile_unfold:
  "Reconcile unmarshal r now req w =
     (case cl_GetBundle (Client r) (snd w) req of
        (Inl err, s) \<Rightarrow>
          (if IsNotFound err then None else Some err, (fst w @ [CallGetBundle req], s))
      | (Inr b, s) \<Rightarrow>
          if ContainsFinalizer b appBundleFinalizer
          then reconcileFetched unmarshal r now b (fst w @ [CallGetBundle req], s)
          else
            (case cl_UpdateBundle (Client r) s (AddFinalizer b appBundleFinalizer) of
               (Inl err, s') \<Rightarrow>
                 (Some err, (fst w @ [CallGetBundle req,
                                      CallUpdateBundle (AddFinalizer b appBundleFinalizer)], s'))
             | (Inr b', s') \<Rightarrow>
                 reconcileFetched unmarshal r now b'
                   (fst w @ [CallGetBundle req,
                             CallUpdateBundle (AddFinalizer b appBundleFinalizer)], s')))"
proof -
  obtain gr s where g: "cl_GetBundle (Client r) (snd w) req = (gr, s)" by (metis prod.exhaust)
  show ?thesis
  proof (cases gr)
    case (Inl e)
    with g show ?thesis by (simp add: Reconcile_def r_GetBundle_def)
  next
    case (Inr b)
    show ?thesis
    proof (cases "ContainsFinalizer b appBundleFinalizer")
      case True
      with g Inr show ?thesis by (simp add: Reconcile_def r_GetBundle_def reconcileFetched_def)
    next
      case False
      obtain ur s' where u: "cl_UpdateBundle (Client r) s (AddFinalizer b appBundleFinalizer) = (ur, s')"
        by (metis prod.exhaust)
      show ?thesis using g Inr False u
        by (cases ur) (simp_all add: Reconcile_def r_GetBundle_def r_UpdateBundle_def reconcileFetched_def)
    qed
  qed
qed

end
